theory Spec2Isabelle
  imports Main "HOL-Library.Word"
begin

section \<open>Go values and the process state around a logger\<close>

text \<open>
  Two Go programs of the repository define a type \<open>Logger\<close> with the methods
  \<open>StartTraceWithContext\<close>, \<open>AddSpan\<close>, \<open>AddLlmSpan\<close>, \<open>Conclude\<close> and
  \<open>FlushWithContext\<close>:
  \<^item> \<^verbatim>\<open>src/golang/v2/main.go\<close>, the buffered logger: concluded traces go to
    \<open>traceBuffer\<close> and one flush posts the whole buffer;
  \<^item> \<^verbatim>\<open>src/unnamed/part_001\<close>, the direct logger: there is one \<open>currentTrace\<close>, which
    a flush posts or, in dry-run mode, prints.
  The names of the first program are kept as they are; the names of the second carry the
  suffix \<open>1\<close> (\<open>Logger1\<close>, \<open>AddSpan1\<close>, ...), since both programs are \<open>package main\<close>
  and use the same identifiers.

  Every method locks \<open>l.mu\<close> on entry and unlocks on return, so calls on one logger run
  one after the other; the functions below are these serialised calls, and the mutex is not
  a field of the model.
\<close>

text \<open>
  A value of type \<open>interface{}\<close>: nil, a string, an int, or some other Go value that the
  logger stores and never inspects (named by a number).
\<close>

datatype any = ANil | AString string | AInt int | AOther nat

text \<open>
  A \<open>map[string]interface{}\<close> is a reference in Go: \<open>metadata := config.Metadata\<close> copies
  the reference, and an assignment \<open>metadata[k] = v\<close> is seen through every copy. Map
  values are therefore references into a heap of maps; the nil map is \<open>None\<close>.
\<close>

type_synonym mapref = nat
type_synonym gomap = "string \<rightharpoonup> any"

text \<open>
  A \<open>[]string\<close> is a pointer into a backing array, a length and a capacity. A struct
  field assigned from a caller's slice (\<open>Tags: config.Tags\<close>) shares the caller's array,
  and \<open>append\<close> writes into that array when the capacity allows. A slice value that a
  method stores is therefore \<open>NilSlice\<close> or \<open>Slice a off n c\<close>: array \<open>a\<close>, from
  index \<open>off\<close>, length \<open>n\<close>, capacity \<open>c\<close>; the arrays are in the process state, each
  a function from index to element. A slice that a method only reads during the call
  (all tags of the buffered logger, the tags given to \<open>Conclude\<close>) is the list of its
  elements at the call.
\<close>

datatype strslice = NilSlice | Slice nat nat nat nat

fun slice_len :: "strslice \<Rightarrow> nat" where
  "slice_len NilSlice = 0"
| "slice_len (Slice a off n c) = n"

fun slice_cap :: "strslice \<Rightarrow> nat" where
  "slice_cap NilSlice = 0"
| "slice_cap (Slice a off n c) = c"

fun slice_elems :: "(nat \<Rightarrow> nat \<Rightarrow> string) \<Rightarrow> strslice \<Rightarrow> string list" where
  "slice_elems arrs NilSlice = []"
| "slice_elems arrs (Slice a off n c) = map (arrs a) [off ..< off + n]"

text \<open>Writing the elements \<open>xs\<close> into an array from index \<open>i\<close> on.\<close>

definition store_elems :: "(nat \<Rightarrow> string) \<Rightarrow> nat \<Rightarrow> string list \<Rightarrow> (nat \<Rightarrow> string)" where
  "store_elems f i xs = (\<lambda>j. if i \<le> j \<and> j < i + length xs then xs ! (j - i) else f j)"

text \<open>
  \<open>time.Time\<close> as nanoseconds since the zero time (the value of an unset \<open>time.Time\<close>
  field), and \<open>time.Duration\<close>, an \<open>int64\<close> of nanoseconds, as a 64-bit word read signed.
\<close>

type_synonym time = int
type_synonym int64 = "64 word"

definition time_Add :: "time \<Rightarrow> int64 \<Rightarrow> time" where
  "time_Add t d = t + sint d"

text \<open>
  Errors are values. \<open>LibError n\<close> is an error returned by the standard library (the JSON
  encoder, the HTTP client), \<open>Wrap m e\<close> is \<open>fmt.Errorf(m + ": %w", e)\<close>, \<open>StatusError m c b\<close>
  is a \<open>fmt.Errorf\<close> that reports an HTTP status code and the response body, and
  \<open>Errorf m\<close> is a \<open>fmt.Errorf\<close> of a fixed message.
\<close>

datatype error =
    LibError nat
  | Wrap string error
  | StatusError string nat string
  | Errorf string

text \<open>
  A call that can also end the process: \<open>Panics\<close> is a run-time panic (a nil pointer
  dereference), \<open>Exits\<close> is \<open>log.Fatal\<close>, which prints and calls \<open>os.Exit(1)\<close>.
\<close>

datatype 'a outcome = Returns 'a | Panics | Exits

text \<open>A line written by package \<open>log\<close>: a message, or a message that formats an error.\<close>

datatype log_line = Msg string | MsgErr string error

record Request =
  req_Method :: string
  req_URL :: string
  req_Header :: "string \<rightharpoonup> string"
  req_Body :: string

record Response =
  StatusCode :: nat
  Body :: string

text \<open>
  The structs \<open>ProjectDBThin\<close> and \<open>LogStreamResponse\<close> of the buffered logger and
  \<open>ProjectV2\<close> and \<open>LogStreamDB\<close> of the direct logger all have exactly the two string
  fields \<open>ID\<close> and \<open>Name\<close>.
\<close>

record Entry =
  ent_ID :: string
  ent_Name :: string

type_synonym ProjectDBThin = Entry
type_synonym LogStreamResponse = Entry
type_synonym ProjectV2 = Entry
type_synonym LogStreamDB = Entry

text \<open>
  The state of the process outside the logger: the heap of maps with its allocation
  pointer, the backing arrays of string slices with theirs, what package \<open>log\<close> has
  written, what \<open>fmt.Printf\<close> has written, and the HTTP requests handed to
  \<open>Client.Do\<close>, oldest first.
\<close>

record sys =
  heap :: "mapref \<Rightarrow> gomap"
  next_map :: mapref
  arrays :: "nat \<Rightarrow> nat \<Rightarrow> string"
  next_arr :: nat
  log_out :: "log_line list"
  std_out :: "string list"
  sent :: "Request list"

definition make_map :: "sys \<Rightarrow> mapref \<times> sys" where
  "make_map s =
     (next_map s, s\<lparr>heap := (heap s)(next_map s := Map.empty), next_map := Suc (next_map s)\<rparr>)"

text \<open>\<open>if metadata == nil { metadata = make(map[string]interface{}) }\<close>\<close>

definition ensure_map :: "mapref option \<Rightarrow> sys \<Rightarrow> mapref \<times> sys" where
  "ensure_map m s = (case m of None \<Rightarrow> make_map s | Some r \<Rightarrow> (r, s))"

text \<open>\<open>m[k] = v\<close> on a map that is not nil.\<close>

definition map_assign :: "mapref \<Rightarrow> string \<Rightarrow> any \<Rightarrow> sys \<Rightarrow> sys" where
  "map_assign r k v s = s\<lparr>heap := (heap s)(r := (heap s r)(k \<mapsto> v))\<rparr>"

definition log_Println :: "string \<Rightarrow> sys \<Rightarrow> sys" where
  "log_Println m s = s\<lparr>log_out := log_out s @ [Msg m]\<rparr>"

definition log_Printf :: "log_line \<Rightarrow> sys \<Rightarrow> sys" where
  "log_Printf ln s = s\<lparr>log_out := log_out s @ [ln]\<rparr>"

definition fmt_Printf :: "string \<Rightarrow> sys \<Rightarrow> sys" where
  "fmt_Printf m s = s\<lparr>std_out := std_out s @ [m]\<rparr>"

fun strings_Join :: "string list \<Rightarrow> string \<Rightarrow> string" where
  "strings_Join [] sep = []"
| "strings_Join [x] sep = x"
| "strings_Join (x # y # ys) sep = x @ sep @ strings_Join (y # ys) sep"

definition quoted :: "string \<Rightarrow> string" where
  "quoted x = [CHR 0x27] @ x @ [CHR 0x27]"

section \<open>The buffered logger (src/golang/v2/main.go)\<close>

subsection \<open>Data\<close>

definition galileoAPIBaseURL :: string where
  "galileoAPIBaseURL = ''https://api.galileo.ai''"

record LoggerConfig =
  ProjectName :: string
  LogStreamName :: string
  APIKey :: string
  AuthMethod :: string

record TraceConfig =
  tc_Name :: string
  tc_Input :: string
  tc_Tags :: "string list"
  tc_Metadata :: "mapref option"

record SpanConfig =
  sc_Name :: string
  sc_Input :: any
  sc_Output :: any
  sc_DurationNs :: int64
  sc_Metadata :: "mapref option"
  sc_Tags :: "string list"
  sc_Error :: string
  sc_Type :: string

text \<open>The token counts are Go \<open>int\<close>s that are stored and never computed with.\<close>

record LlmSpanConfig =
  llm_Input :: string
  llm_Output :: string
  llm_Model :: string
  llm_NumInputTokens :: int
  llm_NumOutputTokens :: int
  llm_TotalTokens :: int
  llm_DurationNs :: int64
  llm_Metadata :: "mapref option"
  llm_Tags :: "string list"

record ConcludeConfig =
  cc_Output :: string
  cc_DurationNs :: int64
  cc_Tags :: "string list"

record GalileoSpan =
  gs_ID :: string
  gs_Name :: string
  gs_Input :: any
  gs_Output :: any
  gs_StartTime :: time
  gs_EndTime :: time
  gs_Type :: string
  gs_Status :: string
  gs_Metadata :: "mapref option"

text \<open>
  A trace and its spans are reached through pointers that only the logger holds (the
  trace is allocated in \<open>StartTraceWithContext\<close>, each span in the add call, and no method
  returns either), so they are values here; their metadata maps come from the caller and
  stay references.
\<close>

record GalileoTrace =
  gt_ID :: string
  gt_Name :: string
  gt_Input :: string
  gt_Output :: string
  gt_Spans :: "GalileoSpan list"
  gt_Metadata :: "mapref option"
  gt_StartTime :: time
  gt_EndTime :: time

record LogTracesIngestRequest =
  ir_LogStreamID :: string
  ir_SessionID :: string
  ir_Traces :: "GalileoTrace list"

record Logger =
  config :: LoggerConfig
  projectID :: string
  logStreamID :: string
  accessToken :: string
  sessionID :: string
  traceBuffer :: "GalileoTrace list"
  currentTrace :: "GalileoTrace option"


section \<open>The direct logger (src/unnamed/part_001): data\<close>

text \<open>
  \<open>LoggerConfig.HTTPClient\<close> is not a field here: the client, whether the caller's or the
  default one, is the environment's \<open>Do\<close> below.

  The tags of a trace configuration and of the span configurations are stored in the trace
  and in the span as the caller's slice, so these fields are slice values. The tags of
  \<open>ConcludeConfig\<close> are only read (they are the source of an \<open>append\<close>, which copies
  them before it writes), so that field is the list of the elements.
\<close>

record LoggerConfig1 =
  ProjectID1 :: string
  LogStreamID1 :: string
  APIKey1 :: string
  BaseURL1 :: string
  DryRun1 :: bool

record TraceConfig1 =
  tc1_Input :: string
  tc1_Tags :: strslice

record SpanConfig1 =
  sc1_Name :: string
  sc1_Input :: any
  sc1_Output :: any
  sc1_DurationNs :: int64
  sc1_Tags :: strslice
  sc1_Metadata :: "mapref option"

record LlmSpanConfig1 =
  llm1_Input :: string
  llm1_Output :: string
  llm1_Model :: string
  llm1_NumInputTokens :: int
  llm1_NumOutputTokens :: int
  llm1_TotalTokens :: int
  llm1_DurationNs :: int64
  llm1_Metadata :: "mapref option"
  llm1_Tags :: strslice

record ConcludeConfig1 =
  cc1_Output :: string
  cc1_DurationNs :: int64
  cc1_Tags :: "string list"

record Span =
  sp_Name :: string
  sp_Input :: any
  sp_Output :: any
  sp_DurationNs :: int64
  sp_Metadata :: "mapref option"
  sp_Tags :: strslice

record Trace =
  tr_Input :: string
  tr_Output :: string
  tr_DurationNs :: int64
  tr_Spans :: "Span list"
  tr_Tags :: strslice
  tr_Metadata :: "mapref option"

record Logger1 =
  config1 :: LoggerConfig1
  currentTrace1 :: "Trace option"

section \<open>The environment: standard library and remote service\<close>

text \<open>
  What the programs call and the repository does not define is a parameter of the model:
  \<^item> \<open>Marshal_map\<close> is \<open>json.Marshal\<close> on a \<open>map[string]string\<close> (it cannot fail, and
    the programs drop its error); \<open>Marshal_ingest\<close> and \<open>MarshalIndent_events\<close> encode the
    flush payloads, reading the metadata maps from the heap and the tags from the arrays,
    and can fail (a value of \<open>interface{}\<close> that JSON cannot encode);
  \<^item> \<open>NewRequest_err\<close> says when \<open>http.NewRequestWithContext\<close> returns an error for a
    method and URL;
  \<^item> \<open>Do\<close> is \<open>Client.Do\<close>: given the requests made so far and the request, a transport
    error (which includes an expired or cancelled context) or the response;
  \<^item> the \<open>Decode_\<close> functions are \<open>json.NewDecoder(resp.Body).Decode(&v)\<close> for each
    shape of \<open>v\<close>: what \<open>v\<close> holds afterwards and the error, if any;
  \<^item> \<open>QueryEscape\<close> is \<open>url.QueryEscape\<close>;
  \<^item> \<open>growslice_cap\<close> is the capacity that the runtime picks when \<open>append\<close> has to
    allocate, from the old capacity and the length needed (never less than that length).
  The theorems hold for every environment.
\<close>

record env =
  Marshal_map :: "(string \<times> string) list \<Rightarrow> string"
  Marshal_ingest :: "(mapref \<Rightarrow> gomap) \<Rightarrow> LogTracesIngestRequest \<Rightarrow> error + string"
  MarshalIndent_events :: "(mapref \<Rightarrow> gomap) \<Rightarrow> (nat \<Rightarrow> nat \<Rightarrow> string) \<Rightarrow> Trace \<Rightarrow> error + string"
  NewRequest_err :: "string \<Rightarrow> string \<Rightarrow> error option"
  Do :: "Request list \<Rightarrow> Request \<Rightarrow> error + Response"
  Decode_token :: "string \<Rightarrow> string \<times> error option"
  Decode_id :: "string \<Rightarrow> string \<times> error option"
  Decode_entry :: "string \<Rightarrow> Entry \<times> error option"
  Decode_entries :: "string \<Rightarrow> Entry list \<times> error option"
  Decode_data_entry :: "string \<Rightarrow> Entry \<times> error option"
  Decode_data_entries :: "string \<Rightarrow> Entry list \<times> error option"
  QueryEscape :: "string \<Rightarrow> string"
  growslice_cap :: "nat \<Rightarrow> nat \<Rightarrow> nat"

definition http_NewRequestWithContext :: "env \<Rightarrow> string \<Rightarrow> string \<Rightarrow> string \<Rightarrow> error + Request" where
  "http_NewRequestWithContext e method url body =
     (case NewRequest_err e method url of
        Some err \<Rightarrow> Inl err
      | None \<Rightarrow> Inr \<lparr>req_Method = method, req_URL = url, req_Header = Map.empty, req_Body = body\<rparr>)"

definition Header_Set :: "string \<Rightarrow> string \<Rightarrow> Request \<Rightarrow> Request" where
  "Header_Set k v req = req\<lparr>req_Header := (req_Header req)(k \<mapsto> v)\<rparr>"

definition httpClient_Do :: "env \<Rightarrow> Request \<Rightarrow> sys \<Rightarrow> (error + Response) \<times> sys" where
  "httpClient_Do e req s = (Do e (sent s) req, s\<lparr>sent := sent s @ [req]\<rparr>)"

text \<open>
  \<open>append(sl, xs...)\<close>. When the capacity of \<open>sl\<close> holds the result, the elements are
  written into the array of \<open>sl\<close> behind its length, where another slice of the same
  array may be reading, and the result is \<open>sl\<close> with the new length. Otherwise a new array
  is allocated, the elements of \<open>sl\<close> and then \<open>xs\<close> are copied into it, and the old
  array is left as it is.
\<close>

definition go_append :: "env \<Rightarrow> strslice \<Rightarrow> string list \<Rightarrow> sys \<Rightarrow> strslice \<times> sys" where
  "go_append e sl xs s =
     (if slice_len sl + length xs \<le> slice_cap sl
      then (case sl of
              NilSlice \<Rightarrow> (NilSlice, s)
            | Slice a off n c \<Rightarrow>
                (Slice a off (n + length xs) c,
                 s\<lparr>arrays := (arrays s)(a := store_elems (arrays s a) (off + n) xs)\<rparr>))
      else (let n = slice_len sl + length xs;
                c = max n (growslice_cap e (slice_cap sl) n);
                a = next_arr s;
                ys = slice_elems (arrays s) sl @ xs
            in (Slice a 0 n c,
                s\<lparr>arrays := (arrays s)(a := (\<lambda>j. if j < n then ys ! j else [])),
                  next_arr := Suc a\<rparr>)))"

section \<open>The buffered logger: operations\<close>

definition setAuthHeader :: "Logger \<Rightarrow> Request \<Rightarrow> Request" where
  "setAuthHeader l req =
     (if AuthMethod (config l) = ''bearer_token''
      then Header_Set ''Authorization'' (''Bearer '' @ accessToken l) req
      else Header_Set ''Galileo-API-Key'' (APIKey (config l)) req)"

text \<open>
  \<open>StartSession\<close>, \<open>getAccessToken\<close>, \<open>getOrCreateProject\<close>, \<open>createProject\<close>,
  \<open>getOrCreateLogStream\<close> and \<open>createLogStream\<close> drop the error of
  \<open>http.NewRequestWithContext\<close> and use the request; when that call fails the request is
  nil and the next statement dereferences it.
\<close>

definition StartSession :: "env \<Rightarrow> string \<Rightarrow> Logger \<Rightarrow> sys \<Rightarrow> (error + string) outcome \<times> Logger \<times> sys" where
  "StartSession e name l s =
     (let url = galileoAPIBaseURL @ ''/projects/'' @ projectID l @ ''/sessions'';
          body = Marshal_map e [(''name'', name), (''log_stream_id'', logStreamID l)]
      in case http_NewRequestWithContext e ''POST'' url body of
           Inl err \<Rightarrow> (Panics, l, s)
         | Inr req0 \<Rightarrow>
             (let req = Header_Set ''Content-Type'' ''application/json'' (setAuthHeader l req0)
              in case httpClient_Do e req s of
                   (Inl err, s1) \<Rightarrow> (Returns (Inl err), l, s1)
                 | (Inr resp, s1) \<Rightarrow>
                     if StatusCode resp \<noteq> 200 \<and> StatusCode resp \<noteq> 201
                     then (Returns (Inl (StatusError ''session creation failed with status''
                                           (StatusCode resp) (Body resp))), l, s1)
                     else (let sid = fst (Decode_id e (Body resp))
                           in (Returns (Inr sid), l\<lparr>sessionID := sid\<rparr>,
                               fmt_Printf (''Started session '' @ quoted name @ '' with ID: '' @ sid) s1))))"

text \<open>
  The methods that create a trace or a span take two values from outside: \<open>uid\<close> is the
  string of \<open>uuid.New()\<close> and \<open>now\<close> the result of \<open>time.Now()\<close>.
\<close>

definition StartTraceWithContext :: "string \<Rightarrow> time \<Rightarrow> TraceConfig \<Rightarrow> Logger \<Rightarrow> sys \<Rightarrow> Logger \<times> sys" where
  "StartTraceWithContext uid now cfg l s =
     (let (metadata, s1) =
            (if tc_Tags cfg \<noteq> []
             then (let (m, s') = ensure_map (tc_Metadata cfg) s
                   in (Some m, map_assign m ''tags'' (AString (strings_Join (tc_Tags cfg) '','')) s'))
             else (tc_Metadata cfg, s))
      in (l\<lparr>currentTrace := Some
               \<lparr>gt_ID = uid, gt_Name = tc_Name cfg, gt_Input = tc_Input cfg, gt_Output = [],
                gt_Spans = [], gt_Metadata = metadata, gt_StartTime = now, gt_EndTime = 0\<rparr>\<rparr>,
          s1))"

definition AddSpan :: "string \<Rightarrow> time \<Rightarrow> SpanConfig \<Rightarrow> Logger \<Rightarrow> sys \<Rightarrow> Logger \<times> sys" where
  "AddSpan uid now cfg l s =
     (case currentTrace l of
        None \<Rightarrow> (l, log_Println ''Warning: AddSpan called without an active trace.'' s)
      | Some tr \<Rightarrow>
          (let startTime = now;
               (metadata, s1) =
                 (if sc_Tags cfg \<noteq> []
                  then (let (m, s') = ensure_map (sc_Metadata cfg) s
                        in (Some m, map_assign m ''tags'' (AString (strings_Join (sc_Tags cfg) '','')) s'))
                  else (sc_Metadata cfg, s));
               (status, metadata2, s2) =
                 (if sc_Error cfg \<noteq> []
                  then (let (m, s') = ensure_map metadata s1
                        in (''ERROR'', Some m, map_assign m ''error'' (AString (sc_Error cfg)) s'))
                  else (''SUCCESS'', metadata, s1));
               spanType = (if sc_Type cfg = [] then ''tool'' else sc_Type cfg);
               span = \<lparr>gs_ID = uid, gs_Name = sc_Name cfg, gs_Input = sc_Input cfg,
                       gs_Output = sc_Output cfg, gs_StartTime = startTime,
                       gs_EndTime = time_Add startTime (sc_DurationNs cfg), gs_Type = spanType,
                       gs_Status = status, gs_Metadata = metadata2\<rparr>
           in (l\<lparr>currentTrace := Some (tr\<lparr>gt_Spans := gt_Spans tr @ [span]\<rparr>)\<rparr>, s2)))"

definition AddLlmSpan :: "string \<Rightarrow> time \<Rightarrow> LlmSpanConfig \<Rightarrow> Logger \<Rightarrow> sys \<Rightarrow> Logger \<times> sys" where
  "AddLlmSpan uid now cfg l s =
     (case currentTrace l of
        None \<Rightarrow> (l, log_Println ''Warning: AddLlmSpan called without an active trace.'' s)
      | Some tr \<Rightarrow>
          (let startTime = now;
               (metadata, s1) = ensure_map (llm_Metadata cfg) s;
               s2 = (if llm_Tags cfg \<noteq> []
                     then map_assign metadata ''tags'' (AString (strings_Join (llm_Tags cfg) '','')) s1
                     else s1);
               s3 = map_assign metadata ''model'' (AString (llm_Model cfg)) s2;
               s4 = map_assign metadata ''llm.token_count.input'' (AInt (llm_NumInputTokens cfg)) s3;
               s5 = map_assign metadata ''llm.token_count.output'' (AInt (llm_NumOutputTokens cfg)) s4;
               s6 = map_assign metadata ''llm.token_count.total'' (AInt (llm_TotalTokens cfg)) s5;
               span = \<lparr>gs_ID = uid, gs_Name = ''llm-span'', gs_Input = AString (llm_Input cfg),
                       gs_Output = AString (llm_Output cfg), gs_StartTime = startTime,
                       gs_EndTime = time_Add startTime (llm_DurationNs cfg), gs_Type = ''llm'',
                       gs_Status = ''SUCCESS'', gs_Metadata = Some metadata\<rparr>
           in (l\<lparr>currentTrace := Some (tr\<lparr>gt_Spans := gt_Spans tr @ [span]\<rparr>)\<rparr>, s6)))"

definition Conclude :: "ConcludeConfig \<Rightarrow> Logger \<Rightarrow> sys \<Rightarrow> Logger \<times> sys" where
  "Conclude cfg l s =
     (case currentTrace l of
        None \<Rightarrow> (l, log_Println ''Warning: Conclude called without an active trace.'' s)
      | Some tr \<Rightarrow>
          (let tr1 = tr\<lparr>gt_Output := cc_Output cfg,
                        gt_EndTime := time_Add (gt_StartTime tr) (cc_DurationNs cfg)\<rparr>;
               (tr2, s2) =
                 (if cc_Tags cfg \<noteq> []
                  then (let (m, s') = ensure_map (gt_Metadata tr1) s
                        in (tr1\<lparr>gt_Metadata := Some m\<rparr>,
                            map_assign m ''completion_tags'' (AString (strings_Join (cc_Tags cfg) '','')) s'))
                  else (tr1, s))
           in (l\<lparr>traceBuffer := traceBuffer l @ [tr2], currentTrace := None\<rparr>, s2)))"

definition FlushWithContext :: "env \<Rightarrow> Logger \<Rightarrow> sys \<Rightarrow> error option \<times> Logger \<times> sys" where
  "FlushWithContext e l s =
     (if traceBuffer l = [] then (None, l, s)
      else
        (let ingestRequest = \<lparr>ir_LogStreamID = logStreamID l, ir_SessionID = sessionID l,
                              ir_Traces = traceBuffer l\<rparr>
         in case Marshal_ingest e (heap s) ingestRequest of
              Inl err \<Rightarrow> (Some (Wrap ''failed to marshal traces'' err), l, s)
            | Inr body \<Rightarrow>
                (let url = galileoAPIBaseURL @ ''/projects/'' @ projectID l @ ''/traces''
                 in case http_NewRequestWithContext e ''POST'' url body of
                      Inl err \<Rightarrow> (Some (Wrap ''failed to create flush request'' err), l, s)
                    | Inr req0 \<Rightarrow>
                        (let req = Header_Set ''Content-Type'' ''application/json'' (setAuthHeader l req0)
                         in case httpClient_Do e req s of
                              (Inl err, s1) \<Rightarrow> (Some (Wrap ''failed to flush traces'' err), l, s1)
                            | (Inr resp, s1) \<Rightarrow>
                                if StatusCode resp \<noteq> 200 \<and> StatusCode resp \<noteq> 201
                                then (Some (StatusError ''flush failed with status''
                                              (StatusCode resp) (Body resp)), l, s1)
                                else (None, l\<lparr>traceBuffer := []\<rparr>, s1)))))"

definition Close :: "env \<Rightarrow> Logger \<Rightarrow> sys \<Rightarrow> Logger \<times> sys" where
  "Close e l s = snd (FlushWithContext e l s)"


subsection \<open>Initialisation: token, project and log stream\<close>

definition getAccessToken :: "env \<Rightarrow> Logger \<Rightarrow> sys \<Rightarrow> (error + string) outcome \<times> sys" where
  "getAccessToken e l s =
     (let url = galileoAPIBaseURL @ ''/login/api_key'';
          body = Marshal_map e [(''api_key'', APIKey (config l))]
      in case http_NewRequestWithContext e ''POST'' url body of
           Inl err \<Rightarrow> (Panics, s)
         | Inr req0 \<Rightarrow>
             (case httpClient_Do e (Header_Set ''Content-Type'' ''application/json'' req0) s of
                (Inl err, s1) \<Rightarrow> (Returns (Inl err), s1)
              | (Inr resp, s1) \<Rightarrow>
                  if StatusCode resp \<noteq> 200
                  then (Returns (Inl (StatusError ''status'' (StatusCode resp) (Body resp))), s1)
                  else (Returns (Inr (fst (Decode_token e (Body resp)))), s1)))"

definition createProject :: "env \<Rightarrow> Logger \<Rightarrow> sys \<Rightarrow> (error + string) outcome \<times> sys" where
  "createProject e l s =
     (let url = galileoAPIBaseURL @ ''/projects'';
          body = Marshal_map e [(''name'', ProjectName (config l)), (''type'', ''gen_ai'')]
      in case http_NewRequestWithContext e ''POST'' url body of
           Inl err \<Rightarrow> (Panics, s)
         | Inr req0 \<Rightarrow>
             (case httpClient_Do e (setAuthHeader l (Header_Set ''Content-Type'' ''application/json'' req0)) s of
                (Inl err, s1) \<Rightarrow> (Returns (Inl err), s1)
              | (Inr resp, s1) \<Rightarrow>
                  if StatusCode resp \<noteq> 200 \<and> StatusCode resp \<noteq> 201
                  then (Returns (Inl (StatusError ''status'' (StatusCode resp) (Body resp))), s1)
                  else (Returns (Inr (ent_ID (fst (Decode_entry e (Body resp))))), s1)))"

text \<open>
  The loop \<open>for _, p := range projects { if p.Name == projectName { return p.ID, nil } }\<close>
  returns at the first entry with the name: \<open>find\<close>. A listing that does not answer 200 is
  not decoded, and the function goes on to create.
\<close>

definition getOrCreateProject :: "env \<Rightarrow> string \<Rightarrow> Logger \<Rightarrow> sys \<Rightarrow> (error + string) outcome \<times> sys" where
  "getOrCreateProject e projectName l s =
     (case http_NewRequestWithContext e ''GET'' (galileoAPIBaseURL @ ''/projects/all'') [] of
        Inl err \<Rightarrow> (Panics, s)
      | Inr req0 \<Rightarrow>
          (case httpClient_Do e (setAuthHeader l req0) s of
             (Inl err, s1) \<Rightarrow> (Returns (Inl err), s1)
           | (Inr resp, s1) \<Rightarrow>
               (case (if StatusCode resp = 200
                      then find (\<lambda>p. ent_Name p = projectName) (fst (Decode_entries e (Body resp)))
                      else None) of
                  Some p \<Rightarrow>
                    (Returns (Inr (ent_ID p)),
                     fmt_Printf (''Found existing project '' @ quoted projectName @ '' with ID: '' @ ent_ID p) s1)
                | None \<Rightarrow>
                    createProject e l
                      (fmt_Printf (''Project '' @ quoted projectName @ '' not found, creating...'') s1))))"

definition createLogStream :: "env \<Rightarrow> Logger \<Rightarrow> sys \<Rightarrow> (error + string) outcome \<times> sys" where
  "createLogStream e l s =
     (let url = galileoAPIBaseURL @ ''/projects/'' @ projectID l @ ''/log_streams'';
          body = Marshal_map e [(''name'', LogStreamName (config l))]
      in case http_NewRequestWithContext e ''POST'' url body of
           Inl err \<Rightarrow> (Panics, s)
         | Inr req0 \<Rightarrow>
             (case httpClient_Do e (setAuthHeader l (Header_Set ''Content-Type'' ''application/json'' req0)) s of
                (Inl err, s1) \<Rightarrow> (Returns (Inl err), s1)
              | (Inr resp, s1) \<Rightarrow>
                  if StatusCode resp \<noteq> 200 \<and> StatusCode resp \<noteq> 201
                  then (Returns (Inl (StatusError ''status'' (StatusCode resp) (Body resp))), s1)
                  else (Returns (Inr (ent_ID (fst (Decode_entry e (Body resp))))), s1)))"

definition getOrCreateLogStream :: "env \<Rightarrow> string \<Rightarrow> Logger \<Rightarrow> sys \<Rightarrow> (error + string) outcome \<times> sys" where
  "getOrCreateLogStream e logStreamName l s =
     (case http_NewRequestWithContext e ''GET''
             (galileoAPIBaseURL @ ''/projects/'' @ projectID l @ ''/log_streams'') [] of
        Inl err \<Rightarrow> (Panics, s)
      | Inr req0 \<Rightarrow>
          (case httpClient_Do e (setAuthHeader l req0) s of
             (Inl err, s1) \<Rightarrow> (Returns (Inl err), s1)
           | (Inr resp, s1) \<Rightarrow>
               (case (if StatusCode resp = 200
                      then find (\<lambda>ls. ent_Name ls = logStreamName) (fst (Decode_entries e (Body resp)))
                      else None) of
                  Some ls \<Rightarrow>
                    (Returns (Inr (ent_ID ls)),
                     fmt_Printf (''Found existing log stream '' @ quoted logStreamName @ '' with ID: '' @ ent_ID ls) s1)
                | None \<Rightarrow>
                    createLogStream e l
                      (fmt_Printf (''Log stream '' @ quoted logStreamName @ '' not found, creating...'') s1))))"

text \<open>
  \<open>log.Fatal\<close> and \<open>log.Fatalf\<close> write the line and end the process: no logger is returned.
\<close>

definition NewLoggerWithConfig :: "env \<Rightarrow> LoggerConfig \<Rightarrow> sys \<Rightarrow> Logger outcome \<times> sys" where
  "NewLoggerWithConfig e cfg s =
     (if APIKey cfg = [] then (Exits, log_Println ''GALILEO_API_KEY must be provided'' s)
      else
        (let logger = \<lparr>config = cfg, projectID = [], logStreamID = [], accessToken = [],
                       sessionID = [], traceBuffer = [], currentTrace = None\<rparr>;
             (tok, s1) = (if AuthMethod cfg = ''bearer_token'' then getAccessToken e logger s
                          else (Returns (Inr []), s))
         in case tok of
              Panics \<Rightarrow> (Panics, s1)
            | Exits \<Rightarrow> (Exits, s1)
            | Returns (Inl err) \<Rightarrow> (Exits, log_Printf (MsgErr ''Failed to get access token'' err) s1)
            | Returns (Inr t) \<Rightarrow>
                (let logger1 = logger\<lparr>accessToken := t\<rparr>
                 in case getOrCreateProject e (ProjectName cfg) logger1 s1 of
                      (Panics, s2) \<Rightarrow> (Panics, s2)
                    | (Exits, s2) \<Rightarrow> (Exits, s2)
                    | (Returns (Inl err), s2) \<Rightarrow>
                        (Exits, log_Printf (MsgErr ''Failed to get or create project'' err) s2)
                    | (Returns (Inr pid), s2) \<Rightarrow>
                        (let logger2 = logger1\<lparr>projectID := pid\<rparr>
                         in case getOrCreateLogStream e (LogStreamName cfg) logger2 s2 of
                              (Panics, s3) \<Rightarrow> (Panics, s3)
                            | (Exits, s3) \<Rightarrow> (Exits, s3)
                            | (Returns (Inl err), s3) \<Rightarrow>
                                (Exits, log_Printf (MsgErr ''Failed to get or create log stream'' err) s3)
                            | (Returns (Inr lsid), s3) \<Rightarrow>
                                (Returns (logger2\<lparr>logStreamID := lsid\<rparr>), s3)))))"

section \<open>The direct logger (src/unnamed/part_001): operations\<close>

definition NewLoggerWithConfig1 :: "LoggerConfig1 \<Rightarrow> sys \<Rightarrow> Logger1 \<times> sys" where
  "NewLoggerWithConfig1 cfg s =
     (let c0 = (if BaseURL1 cfg = [] then cfg\<lparr>BaseURL1 := ''https://api.galileo.ai/v2''\<rparr> else cfg);
          (c1, s1) = (if APIKey1 c0 = []
                      then (c0\<lparr>DryRun1 := True\<rparr>,
                            log_Println ''GALILEO_API_KEY not set. Running in dry run mode.'' s)
                      else (c0, s));
          (c2, s2) = (if \<not> DryRun1 c1 \<and> ProjectID1 c1 = []
                      then (c1\<lparr>DryRun1 := True\<rparr>,
                            log_Println ''GALILEO_PROJECT_ID is not set, but API key is present. Running in dry run mode.'' s1)
                      else (c1, s1));
          (c3, s3) = (if \<not> DryRun1 c2 \<and> LogStreamID1 c2 = []
                      then (c2\<lparr>DryRun1 := True\<rparr>,
                            log_Println ''GALILEO_LOG_STREAM_ID could not be resolved. Running in dry run mode.'' s2)
                      else (c2, s2))
      in (\<lparr>config1 = c3, currentTrace1 = None\<rparr>, s3))"

definition StartTraceWithContext1 :: "TraceConfig1 \<Rightarrow> Logger1 \<Rightarrow> sys \<Rightarrow> Logger1 \<times> sys" where
  "StartTraceWithContext1 cfg l s =
     (l\<lparr>currentTrace1 := Some
          \<lparr>tr_Input = tc1_Input cfg, tr_Output = [], tr_DurationNs = 0, tr_Spans = [],
           tr_Tags = tc1_Tags cfg, tr_Metadata = None\<rparr>\<rparr>, s)"

text \<open>
  \<open>AddSpan\<close> of this program returns the new span, or nil when there is no trace. It hands
  the caller the pointer that the trace keeps; a caller that writes through it is outside
  the methods modelled here.
\<close>

definition AddSpan1 :: "SpanConfig1 \<Rightarrow> Logger1 \<Rightarrow> sys \<Rightarrow> Span option \<times> Logger1 \<times> sys" where
  "AddSpan1 cfg l s =
     (case currentTrace1 l of
        None \<Rightarrow> (None, l, s)
      | Some tr \<Rightarrow>
          (let span = \<lparr>sp_Name = sc1_Name cfg, sp_Input = sc1_Input cfg, sp_Output = sc1_Output cfg,
                       sp_DurationNs = sc1_DurationNs cfg, sp_Metadata = sc1_Metadata cfg,
                       sp_Tags = sc1_Tags cfg\<rparr>
           in (Some span, l\<lparr>currentTrace1 := Some (tr\<lparr>tr_Spans := tr_Spans tr @ [span]\<rparr>)\<rparr>, s)))"

definition AddLlmSpan1 :: "LlmSpanConfig1 \<Rightarrow> Logger1 \<Rightarrow> sys \<Rightarrow> Logger1 \<times> sys" where
  "AddLlmSpan1 cfg l s =
     (case currentTrace1 l of
        None \<Rightarrow> (l, s)
      | Some tr \<Rightarrow>
          (let (metadata, s1) = ensure_map (llm1_Metadata cfg) s;
               s2 = map_assign metadata ''model'' (AString (llm1_Model cfg)) s1;
               s3 = map_assign metadata ''num_input_tokens'' (AInt (llm1_NumInputTokens cfg)) s2;
               s4 = map_assign metadata ''num_output_tokens'' (AInt (llm1_NumOutputTokens cfg)) s3;
               s5 = map_assign metadata ''total_tokens'' (AInt (llm1_TotalTokens cfg)) s4;
               span = \<lparr>sp_Name = ''llm'', sp_Input = AString (llm1_Input cfg),
                       sp_Output = AString (llm1_Output cfg), sp_DurationNs = llm1_DurationNs cfg,
                       sp_Metadata = Some metadata, sp_Tags = llm1_Tags cfg\<rparr>
           in (l\<lparr>currentTrace1 := Some (tr\<lparr>tr_Spans := tr_Spans tr @ [span]\<rparr>)\<rparr>, s5)))"

text \<open>
  \<open>l.currentTrace.Tags = append(l.currentTrace.Tags, config.Tags...)\<close>: the trace's tags
  are the slice that \<open>StartTraceWithContext\<close> took from its caller, so the append can
  write into the caller's array, which the tags of a span may share.
\<close>

definition Conclude1 :: "env \<Rightarrow> ConcludeConfig1 \<Rightarrow> Logger1 \<Rightarrow> sys \<Rightarrow> Logger1 \<times> sys" where
  "Conclude1 e cfg l s =
     (case currentTrace1 l of
        None \<Rightarrow> (l, s)
      | Some tr \<Rightarrow>
          (let (tags, s1) = go_append e (tr_Tags tr) (cc1_Tags cfg) s
           in (l\<lparr>currentTrace1 := Some (tr\<lparr>tr_Output := cc1_Output cfg,
                                             tr_DurationNs := cc1_DurationNs cfg,
                                             tr_Tags := tags\<rparr>)\<rparr>, s1)))"

text \<open>
  \<open>FlushWithContext\<close> takes the trace out of \<open>currentTrace\<close> first and puts it back on
  every path that returns an error after that.
\<close>

definition FlushWithContext1 :: "env \<Rightarrow> Logger1 \<Rightarrow> sys \<Rightarrow> error option \<times> Logger1 \<times> sys" where
  "FlushWithContext1 e l s =
     (case currentTrace1 l of
        None \<Rightarrow> (Some (Errorf ''no trace to flush''), l, s)
      | Some traceToFlush \<Rightarrow>
          (let l0 = l\<lparr>currentTrace1 := None\<rparr>
           in case MarshalIndent_events e (heap s) (arrays s) traceToFlush of
                Inl err \<Rightarrow>
                  (Some (Wrap ''failed to serialize trace'' err), l0\<lparr>currentTrace1 := Some traceToFlush\<rparr>, s)
              | Inr traceData \<Rightarrow>
                  if DryRun1 (config1 l0)
                  then (None, l0, log_Println traceData (log_Println ''Dry Run: Trace data:'' s))
                  else
                    (let url = BaseURL1 (config1 l0) @ ''/projects/'' @ ProjectID1 (config1 l0)
                                 @ ''/log_streams/'' @ LogStreamID1 (config1 l0) @ ''/events''
                     in case http_NewRequestWithContext e ''POST'' url traceData of
                          Inl err \<Rightarrow>
                            (Some (Wrap ''failed to create request'' err),
                             l0\<lparr>currentTrace1 := Some traceToFlush\<rparr>, s)
                        | Inr req0 \<Rightarrow>
                            (let req = Header_Set ''Authorization'' (''Bearer '' @ APIKey1 (config1 l0))
                                         (Header_Set ''Content-Type'' ''application/json'' req0)
                             in case httpClient_Do e req s of
                                  (Inl err, s1) \<Rightarrow>
                                    (Some (Wrap ''failed to send trace to Galileo'' err),
                                     l0\<lparr>currentTrace1 := Some traceToFlush\<rparr>, s1)
                                | (Inr resp, s1) \<Rightarrow>
                                    if StatusCode resp \<noteq> 200 \<and> StatusCode resp \<noteq> 201
                                    then (Some (StatusError ''failed to log trace, status code''
                                                  (StatusCode resp) (Body resp)),
                                          l0\<lparr>currentTrace1 := Some traceToFlush\<rparr>, s1)
                                    else (None, l0, s1)))))"

subsection \<open>Resolving a project and a log stream by name\<close>

definition makeAPIRequest :: "env \<Rightarrow> string \<Rightarrow> string \<Rightarrow> string \<Rightarrow> string \<Rightarrow> sys \<Rightarrow> (error + Response) \<times> sys" where
  "makeAPIRequest e method url apiKey body s =
     (case http_NewRequestWithContext e method url body of
        Inl err \<Rightarrow> (Inl (Wrap ''failed to create request'' err), s)
      | Inr req0 \<Rightarrow>
          httpClient_Do e
            (Header_Set ''Content-Type'' ''application/json''
               (Header_Set ''Authorization'' (''Bearer '' @ apiKey) req0)) s)"

text \<open>Both search functions return the empty string and no error for "not found".\<close>

definition getProjectIDByName :: "env \<Rightarrow> string \<Rightarrow> string \<Rightarrow> sys \<Rightarrow> (error + string) \<times> sys" where
  "getProjectIDByName e apiKey projectName s =
     (let listURL = ''https://api.galileo.ai/v2/projects?name='' @ QueryEscape e projectName
      in case makeAPIRequest e ''GET'' listURL apiKey [] s of
           (Inl err, s1) \<Rightarrow> (Inl (Wrap ''failed to list projects'' err), s1)
         | (Inr resp, s1) \<Rightarrow>
             if StatusCode resp \<noteq> 200
             then (Inl (StatusError ''failed to list projects, status code'' (StatusCode resp) (Body resp)), s1)
             else
               (case Decode_data_entries e (Body resp) of
                  (listResponse, Some err) \<Rightarrow>
                    (Inl (Wrap ''failed to decode project list response'' err), s1)
                | (listResponse, None) \<Rightarrow>
                    (case find (\<lambda>project. ent_Name project = projectName) listResponse of
                       Some project \<Rightarrow> (Inr (ent_ID project), s1)
                     | None \<Rightarrow> (Inr [], s1))))"

definition createProject1 :: "env \<Rightarrow> string \<Rightarrow> string \<Rightarrow> sys \<Rightarrow> (error + string) \<times> sys" where
  "createProject1 e apiKey projectName s =
     (let bodyBytes = Marshal_map e [(''name'', projectName)]
      in case makeAPIRequest e ''POST'' ''https://api.galileo.ai/v2/projects'' apiKey bodyBytes s of
           (Inl err, s1) \<Rightarrow> (Inl (Wrap ''failed to create project'' err), s1)
         | (Inr resp, s1) \<Rightarrow>
             if StatusCode resp \<noteq> 201
             then (Inl (StatusError ''failed to create project, status code'' (StatusCode resp) (Body resp)), s1)
             else
               (case Decode_data_entry e (Body resp) of
                  (createResponse, Some err) \<Rightarrow>
                    (Inl (Wrap ''failed to decode create project response'' err), s1)
                | (createResponse, None) \<Rightarrow> (Inr (ent_ID createResponse), s1)))"

text \<open>
  \<open>getLogStreamIDByName\<close> puts the name into the query unescaped and returns
  \<open>getResponse.Data[0].ID\<close> whenever the listing is not empty.
\<close>

definition getLogStreamIDByName :: "env \<Rightarrow> string \<Rightarrow> string \<Rightarrow> string \<Rightarrow> sys \<Rightarrow> (error + string) \<times> sys" where
  "getLogStreamIDByName e apiKey projectID' logStreamName s =
     (let url = ''https://api.galileo.ai/v2/projects/'' @ projectID' @ ''/log_streams?name='' @ logStreamName
      in case makeAPIRequest e ''GET'' url apiKey [] s of
           (Inl err, s1) \<Rightarrow> (Inl (Wrap ''failed to get log streams'' err), s1)
         | (Inr resp, s1) \<Rightarrow>
             if StatusCode resp \<noteq> 200
             then (Inl (StatusError ''failed to get log streams, status code'' (StatusCode resp) (Body resp)), s1)
             else
               (case Decode_data_entries e (Body resp) of
                  (getResponse, Some err) \<Rightarrow>
                    (Inl (Wrap ''failed to decode get log streams response'' err), s1)
                | (getResponse, None) \<Rightarrow>
                    (case getResponse of
                       first # rest \<Rightarrow> (Inr (ent_ID first), s1)
                     | [] \<Rightarrow> (Inr [], s1))))"

definition createLogStream1 :: "env \<Rightarrow> string \<Rightarrow> string \<Rightarrow> string \<Rightarrow> sys \<Rightarrow> (error + string) \<times> sys" where
  "createLogStream1 e apiKey projectID' logStreamName s =
     (let bodyBytes = Marshal_map e [(''name'', logStreamName)];
          url = ''https://api.galileo.ai/v2/projects/'' @ projectID' @ ''/log_streams''
      in case makeAPIRequest e ''POST'' url apiKey bodyBytes s of
           (Inl err, s1) \<Rightarrow> (Inl (Wrap ''failed to create log stream'' err), s1)
         | (Inr resp, s1) \<Rightarrow>
             if StatusCode resp \<noteq> 201
             then (Inl (StatusError ''failed to create log stream, status code'' (StatusCode resp) (Body resp)), s1)
             else
               (case Decode_entry e (Body resp) of
                  (createResponse, Some err) \<Rightarrow>
                    (Inl (Wrap ''failed to decode create log stream response'' err), s1)
                | (createResponse, None) \<Rightarrow> (Inr (ent_ID createResponse), s1)))"

definition getOrCreateLogStreamID :: "env \<Rightarrow> string \<Rightarrow> string \<Rightarrow> string \<Rightarrow> sys \<Rightarrow> (error + string) \<times> sys" where
  "getOrCreateLogStreamID e apiKey projectID' logStreamName s =
     (if projectID' = [] then (Inl (Errorf ''project ID is required to get or create a log stream''), s)
      else if logStreamName = [] then (Inl (Errorf ''log stream name is required''), s)
      else
        (case getLogStreamIDByName e apiKey projectID' logStreamName s of
           (Inl err, s1) \<Rightarrow> (Inl (Wrap ''error searching for log stream'' err), s1)
         | (Inr logStreamID', s1) \<Rightarrow>
             if logStreamID' \<noteq> []
             then (Inr logStreamID',
                   log_Printf (Msg (''Found existing log stream '' @ quoted logStreamName
                                      @ '' with ID: '' @ logStreamID')) s1)
             else
               (case createLogStream1 e apiKey projectID' logStreamName
                       (log_Printf (Msg (''Log stream '' @ quoted logStreamName
                                           @ '' not found, creating a new one...'')) s1) of
                  (Inl err, s2) \<Rightarrow> (Inl (Wrap ''error creating log stream'' err), s2)
                | (Inr newLogStreamID, s2) \<Rightarrow>
                    (Inr newLogStreamID,
                     log_Printf (Msg (''Successfully created new log stream '' @ quoted logStreamName
                                        @ '' with ID: '' @ newLogStreamID)) s2))))"

definition getOrCreateProjectID :: "env \<Rightarrow> string \<Rightarrow> string \<Rightarrow> sys \<Rightarrow> (error + string) \<times> sys" where
  "getOrCreateProjectID e apiKey projectName s =
     (if apiKey = [] then (Inl (Errorf ''API key is required to get or create a project''), s)
      else if projectName = [] then (Inl (Errorf ''project name is required''), s)
      else
        (case getProjectIDByName e apiKey projectName s of
           (Inl err, s1) \<Rightarrow> (Inl (Wrap ''error searching for project'' err), s1)
         | (Inr projectID', s1) \<Rightarrow>
             if projectID' \<noteq> []
             then (Inr projectID',
                   log_Printf (Msg (''Found existing project '' @ quoted projectName
                                      @ '' with ID: '' @ projectID')) s1)
             else
               (case createProject1 e apiKey projectName
                       (log_Printf (Msg (''Project '' @ quoted projectName
                                           @ '' not found, creating a new one...'')) s1) of
                  (Inl err, s2) \<Rightarrow> (Inl (Wrap ''error creating project'' err), s2)
                | (Inr newProjectID, s2) \<Rightarrow>
                    (Inr newProjectID,
                     log_Printf (Msg (''Successfully created new project '' @ quoted projectName
                                        @ '' with ID: '' @ newProjectID)) s2))))"


section \<open>Sequences of calls\<close>

text \<open>
  An add call with the two values it reads from outside: the string of \<open>uuid.New()\<close> and
  the time of \<open>time.Now()\<close>.
\<close>

datatype add_call =
    CallAddSpan string time SpanConfig
  | CallAddLlmSpan string time LlmSpanConfig

fun do_add :: "add_call \<Rightarrow> Logger \<times> sys \<Rightarrow> Logger \<times> sys" where
  "do_add (CallAddSpan uid now cfg) (l, s) = AddSpan uid now cfg l s"
| "do_add (CallAddLlmSpan uid now cfg) (l, s) = AddLlmSpan uid now cfg l s"

fun do_adds :: "add_call list \<Rightarrow> Logger \<times> sys \<Rightarrow> Logger \<times> sys" where
  "do_adds [] st = st"
| "do_adds (c # cs) st = do_adds cs (do_add c st)"

text \<open>
  The span literal that each add call builds, without its metadata reference (which is the
  caller's map or a new one).
\<close>

fun span_created :: "add_call \<Rightarrow> GalileoSpan" where
  "span_created (CallAddSpan uid now cfg) =
     \<lparr>gs_ID = uid, gs_Name = sc_Name cfg, gs_Input = sc_Input cfg, gs_Output = sc_Output cfg,
      gs_StartTime = now, gs_EndTime = time_Add now (sc_DurationNs cfg),
      gs_Type = (if sc_Type cfg = [] then ''tool'' else sc_Type cfg),
      gs_Status = (if sc_Error cfg \<noteq> [] then ''ERROR'' else ''SUCCESS''),
      gs_Metadata = None\<rparr>"
| "span_created (CallAddLlmSpan uid now cfg) =
     \<lparr>gs_ID = uid, gs_Name = ''llm-span'', gs_Input = AString (llm_Input cfg),
      gs_Output = AString (llm_Output cfg), gs_StartTime = now,
      gs_EndTime = time_Add now (llm_DurationNs cfg), gs_Type = ''llm'',
      gs_Status = ''SUCCESS'', gs_Metadata = None\<rparr>"

definition no_metadata :: "GalileoSpan \<Rightarrow> GalileoSpan" where
  "no_metadata sp = sp\<lparr>gs_Metadata := None\<rparr>"

datatype add_call1 =
    CallAddSpan1 SpanConfig1
  | CallAddLlmSpan1 LlmSpanConfig1

fun do_add1 :: "add_call1 \<Rightarrow> Logger1 \<times> sys \<Rightarrow> Logger1 \<times> sys" where
  "do_add1 (CallAddSpan1 cfg) (l, s) = snd (AddSpan1 cfg l s)"
| "do_add1 (CallAddLlmSpan1 cfg) (l, s) = AddLlmSpan1 cfg l s"

fun do_adds1 :: "add_call1 list \<Rightarrow> Logger1 \<times> sys \<Rightarrow> Logger1 \<times> sys" where
  "do_adds1 [] st = st"
| "do_adds1 (c # cs) st = do_adds1 cs (do_add1 c st)"

fun span_created1 :: "add_call1 \<Rightarrow> Span" where
  "span_created1 (CallAddSpan1 cfg) =
     \<lparr>sp_Name = sc1_Name cfg, sp_Input = sc1_Input cfg, sp_Output = sc1_Output cfg,
      sp_DurationNs = sc1_DurationNs cfg, sp_Metadata = None, sp_Tags = sc1_Tags cfg\<rparr>"
| "span_created1 (CallAddLlmSpan1 cfg) =
     \<lparr>sp_Name = ''llm'', sp_Input = AString (llm1_Input cfg), sp_Output = AString (llm1_Output cfg),
      sp_DurationNs = llm1_DurationNs cfg, sp_Metadata = None, sp_Tags = llm1_Tags cfg\<rparr>"

definition no_metadata1 :: "Span \<Rightarrow> Span" where
  "no_metadata1 sp = sp\<lparr>sp_Metadata := None\<rparr>"

text \<open>
  Any call on a buffered logger, and between two calls anything the rest of the program
  does to the process state (\<open>CallerDoes\<close>: for instance a write into a metadata map that
  it passed in earlier).
\<close>

datatype call =
    CallStartSession env string
  | CallStartTrace string time TraceConfig
  | CallAdd add_call
  | CallConclude ConcludeConfig
  | CallFlush env
  | CallClose env
  | CallerDoes "sys \<Rightarrow> sys"

fun do_call :: "call \<Rightarrow> Logger \<times> sys \<Rightarrow> Logger \<times> sys" where
  "do_call (CallStartSession e name) (l, s) = snd (StartSession e name l s)"
| "do_call (CallStartTrace uid now cfg) (l, s) = StartTraceWithContext uid now cfg l s"
| "do_call (CallAdd c) (l, s) = do_add c (l, s)"
| "do_call (CallConclude cfg) (l, s) = Conclude cfg l s"
| "do_call (CallFlush e) (l, s) = snd (FlushWithContext e l s)"
| "do_call (CallClose e) (l, s) = Close e l s"
| "do_call (CallerDoes f) (l, s) = (l, f s)"

fun do_calls :: "call list \<Rightarrow> Logger \<times> sys \<Rightarrow> Logger \<times> sys" where
  "do_calls [] st = st"
| "do_calls (c # cs) st = do_calls cs (do_call c st)"

section \<open>Example inputs\<close>

definition sys0 :: sys where
  "sys0 = \<lparr>heap = (\<lambda>r. Map.empty), next_map = 0, arrays = (\<lambda>a j. []), next_arr = 0,
            log_out = [], std_out = [], sent = []\<rparr>"

text \<open>A service that answers every request with 200 and an empty listing.\<close>

definition env_ok :: env where
  "env_ok =
     \<lparr>Marshal_map = (\<lambda>m. ''{}''),
      Marshal_ingest = (\<lambda>h r. Inr ''{}''),
      MarshalIndent_events = (\<lambda>h a t. Inr ''{}''),
      NewRequest_err = (\<lambda>m u. None),
      Do = (\<lambda>past req. Inr \<lparr>StatusCode = 200, Body = ''[]''\<rparr>),
      Decode_token = (\<lambda>b. (''tok'', None)),
      Decode_id = (\<lambda>b. (''id-1'', None)),
      Decode_entry = (\<lambda>b. (\<lparr>ent_ID = ''id-1'', ent_Name = ''new''\<rparr>, None)),
      Decode_entries = (\<lambda>b. ([], None)),
      Decode_data_entry = (\<lambda>b. (\<lparr>ent_ID = ''id-1'', ent_Name = ''new''\<rparr>, None)),
      Decode_data_entries = (\<lambda>b. ([], None)),
      QueryEscape = (\<lambda>x. x),
      growslice_cap = (\<lambda>c n. n)\<rparr>"

text \<open>The same with a network that is down: every \<open>Client.Do\<close> returns an error.\<close>

definition env_down :: env where
  "env_down = env_ok\<lparr>Do := (\<lambda>past req. Inl (LibError 0))\<rparr>"

definition ex_config :: LoggerConfig where
  "ex_config = \<lparr>ProjectName = ''p'', LogStreamName = ''ls'', APIKey = ''key'', AuthMethod = ''api_key''\<rparr>"

definition ex_logger :: Logger where
  "ex_logger = \<lparr>config = ex_config, projectID = ''id-1'', logStreamID = ''id-1'', accessToken = [],
              sessionID = [], traceBuffer = [], currentTrace = None\<rparr>"

definition ex_trace :: GalileoTrace where
  "ex_trace = \<lparr>gt_ID = ''t-1'', gt_Name = ''n'', gt_Input = ''ping'', gt_Output = ''pong'',
             gt_Spans = [], gt_Metadata = None, gt_StartTime = 5, gt_EndTime = 9\<rparr>"

definition ex_config1 :: LoggerConfig1 where
  "ex_config1 = \<lparr>ProjectID1 = ''p-1'', LogStreamID1 = ''ls-1'', APIKey1 = ''key'', BaseURL1 = [],
           DryRun1 = False\<rparr>"

definition ex_trace1 :: Trace where
  "ex_trace1 = \<lparr>tr_Input = ''ping'', tr_Output = [], tr_DurationNs = 0, tr_Spans = [],
             tr_Tags = NilSlice, tr_Metadata = None\<rparr>"

definition ex_llm :: LlmSpanConfig where
  "ex_llm = \<lparr>llm_Input = ''ping'', llm_Output = ''pong'', llm_Model = ''m1'',
           llm_NumInputTokens = 1, llm_NumOutputTokens = 1, llm_TotalTokens = 2,
           llm_DurationNs = 1000000, llm_Metadata = None, llm_Tags = []\<rparr>"

definition ex_llm1 :: LlmSpanConfig1 where
  "ex_llm1 = \<lparr>llm1_Input = ''ping'', llm1_Output = ''pong'', llm1_Model = ''m1'',
           llm1_NumInputTokens = 1, llm1_NumOutputTokens = 1, llm1_TotalTokens = 2,
           llm1_DurationNs = 1000000, llm1_Metadata = None, llm1_Tags = NilSlice\<rparr>"


definition ex_logger1 :: Logger1 where
  "ex_logger1 = \<lparr>config1 = ex_config1, currentTrace1 = None\<rparr>"

definition ex_tc :: TraceConfig where
  "ex_tc = \<lparr>tc_Name = ''n'', tc_Input = ''ping'', tc_Tags = [''x''], tc_Metadata = None\<rparr>"

definition ex_tc1 :: TraceConfig1 where
  "ex_tc1 = \<lparr>tc1_Input = ''ping'', tc1_Tags = Slice 0 0 1 2\<rparr>"

definition ex_span :: SpanConfig where
  "ex_span = \<lparr>sc_Name = ''step'', sc_Input = AString ''in'', sc_Output = AString ''out'',
              sc_DurationNs = 500, sc_Metadata = None, sc_Tags = [''a'', ''b''], sc_Error = ''boom'',
              sc_Type = []\<rparr>"

definition ex_span1 :: SpanConfig1 where
  "ex_span1 = \<lparr>sc1_Name = ''step'', sc1_Input = AString ''in'', sc1_Output = AString ''out'',
               sc1_DurationNs = 500, sc1_Tags = Slice 0 0 2 2, sc1_Metadata = None\<rparr>"

definition ex_conclude :: ConcludeConfig where
  "ex_conclude = \<lparr>cc_Output = ''pong'', cc_DurationNs = 1000000, cc_Tags = [''done'', ''ok'']\<rparr>"

definition ex_conclude1 :: ConcludeConfig1 where
  "ex_conclude1 = \<lparr>cc1_Output = ''pong'', cc1_DurationNs = 1000000, cc1_Tags = [''done'']\<rparr>"

definition ex_calls :: "call list" where
  "ex_calls = [CallStartTrace ''t-1'' 5 ex_tc, CallAdd (CallAddLlmSpan ''s-1'' 6 ex_llm)]"

text \<open>
  A service whose name filter is not exact: asked for the log streams named
  \<open>production\<close>, it lists the one stream \<open>production-eu\<close>.
\<close>

text \<open>
  A caller's array \<open>["x", "y"]\<close>: \<open>ex_tc1\<close> passes its first element as the tags of the
  trace (length 1, capacity 2) and \<open>ex_span1\<close> both elements as the tags of a span.
\<close>

definition sys_tags :: sys where
  "sys_tags = sys0\<lparr>arrays := (\<lambda>a j. if a = 0 \<and> j = 0 then ''x'' else if a = 0 \<and> j = 1 then ''y'' else []),
                   next_arr := 1\<rparr>"

text \<open>A caller's metadata map that already has an entry \<open>model\<close>.\<close>

definition sys_meta :: sys where
  "sys_meta = sys0\<lparr>heap := (\<lambda>r. if r = 0 then [''model'' \<mapsto> AString ''caller-model'',
                                                   ''temperature'' \<mapsto> AOther 7]
                                   else Map.empty),
                   next_map := 1\<rparr>"

definition ex_llm_meta :: LlmSpanConfig where
  "ex_llm_meta = ex_llm\<lparr>llm_Metadata := Some 0\<rparr>"

definition ex_llm1_meta :: LlmSpanConfig1 where
  "ex_llm1_meta = ex_llm1\<lparr>llm1_Metadata := Some 0\<rparr>"

text \<open>A generic span configuration of the direct logger that is named \<open>llm\<close>.\<close>

definition ex_span1_llm :: SpanConfig1 where
  "ex_span1_llm = \<lparr>sc1_Name = ''llm'', sc1_Input = AString ''ping'', sc1_Output = AString ''pong'',
                   sc1_DurationNs = 1000000, sc1_Tags = NilSlice, sc1_Metadata = Some 0\<rparr>"

definition env_similar :: env where
  "env_similar =
     env_ok\<lparr>Decode_data_entries := (\<lambda>b. ([\<lparr>ent_ID = ''ls-7'', ent_Name = ''production-eu''\<rparr>], None))\<rparr>"

section \<open>Invariants of the buffered logger\<close>

definition unset_until_concluded :: "Logger \<Rightarrow> bool" where
  "unset_until_concluded l =
     (case currentTrace l of None \<Rightarrow> True | Some t \<Rightarrow> gt_Output t = [] \<and> gt_EndTime t = 0)"

text \<open>
  The identifiers that a sequence of calls gives to new traces, and the property that the
  identifiers in the logger come from a set \<open>used\<close> and that the identifier of the
  active trace is not one of the buffer.
\<close>

fun start_uids :: "call list \<Rightarrow> string list" where
  "start_uids [] = []"
| "start_uids (CallStartTrace uid now cfg # cs) = uid # start_uids cs"
| "start_uids (c # cs) = start_uids cs"

definition ids_apart :: "string set \<Rightarrow> Logger \<Rightarrow> bool" where
  "ids_apart used l =
     (gt_ID ` set (traceBuffer l) \<subseteq> used \<and>
      (case currentTrace l of
         None \<Rightarrow> True
       | Some t \<Rightarrow> gt_ID t \<in> used \<and> gt_ID t \<notin> gt_ID ` set (traceBuffer l)))"

section \<open>Flushing\<close>

lemma FlushWithContext_buffer:
  "traceBuffer (fst (snd (FlushWithContext e l s))) =
     (if fst (FlushWithContext e l s) = None then [] else traceBuffer l)"
  by (simp add: FlushWithContext_def Let_def httpClient_Do_def split: sum.splits)

lemma FlushWithContext_heap:
  "heap (snd (snd (FlushWithContext e l s))) = heap s"
  by (simp add: FlushWithContext_def Let_def httpClient_Do_def split: sum.splits)

lemma FlushWithContext1_trace:
  "currentTrace1 (fst (snd (FlushWithContext1 e l s))) =
     (if fst (FlushWithContext1 e l s) = None then None else currentTrace1 l)"
  by (simp add: FlushWithContext1_def Let_def httpClient_Do_def split: sum.splits option.splits)

lemma FlushWithContext1_heap:
  "heap (snd (snd (FlushWithContext1 e l s))) = heap s"
  by (simp add: FlushWithContext1_def Let_def httpClient_Do_def log_Println_def
           split: sum.splits option.splits)

lemma FlushWithContext_arrays:
  "arrays (snd (snd (FlushWithContext e l s))) = arrays s"
  by (simp add: FlushWithContext_def Let_def httpClient_Do_def split: sum.splits)

lemma FlushWithContext1_arrays:
  "arrays (snd (snd (FlushWithContext1 e l s))) = arrays s"
  by (simp add: FlushWithContext1_def Let_def httpClient_Do_def log_Println_def
           split: sum.splits option.splits)

text \<open>
  Claim C1. For every state and every environment, a flush that returns no error leaves
  nothing to flush, and a flush that returns an error (of the encoder, of the request
  constructor, of the transport, or a status other than 200 and 201) leaves exactly what was
  there before the call, with the metadata maps and the arrays of the tags as they were.
  In the buffered logger what is flushed is \<open>traceBuffer\<close>; in the direct logger it is
  the one trace in \<open>currentTrace\<close>.
\<close>

theorem flush_clears_on_success_keeps_on_error:
  "(case FlushWithContext e l s of (err, l', s') \<Rightarrow>
      traceBuffer l' = (if err = None then [] else traceBuffer l) \<and> heap s' = heap s \<and>
      arrays s' = arrays s) \<and>
   (case FlushWithContext1 e l1 s of (err, l', s') \<Rightarrow>
      currentTrace1 l' = (if err = None then None else currentTrace1 l1) \<and> heap s' = heap s \<and>
      arrays s' = arrays s)"
  by (simp only: case_prod_beta FlushWithContext_buffer FlushWithContext_heap
                 FlushWithContext1_trace FlushWithContext1_heap FlushWithContext_arrays
                 FlushWithContext1_arrays simp_thms)

text \<open>
  Claim C10. In the buffered logger a flush of an empty buffer returns nil at once: the
  logger and the process state are what they were, so no request has been made.
\<close>

theorem flush_empty_buffer:
  "traceBuffer l = [] \<Longrightarrow> FlushWithContext e l s = (None, l, s)"
  by (simp add: FlushWithContext_def)

theorem flush_empty_buffer_witness:
  "traceBuffer ex_logger = [] \<and> FlushWithContext env_down ex_logger sys0 = (None, ex_logger, sys0)"
  using flush_empty_buffer [of ex_logger env_down sys0] by (simp add: ex_logger_def)

section \<open>Adding spans\<close>

lemma AddSpan_spans:
  "currentTrace l = Some tr \<Longrightarrow>
   fst (AddSpan uid now cfg l s) =
     l\<lparr>currentTrace := Some (tr\<lparr>gt_Spans := gt_Spans tr @
          [(span_created (CallAddSpan uid now cfg))
             \<lparr>gs_Metadata := (if sc_Tags cfg = [] \<and> sc_Error cfg = [] then sc_Metadata cfg
                               else Some (case sc_Metadata cfg of None \<Rightarrow> next_map s | Some r \<Rightarrow> r))\<rparr>]\<rparr>)\<rparr>"
  by (simp add: AddSpan_def Let_def ensure_map_def make_map_def map_assign_def split: option.splits)

lemma AddLlmSpan_spans:
  "currentTrace l = Some tr \<Longrightarrow>
   fst (AddLlmSpan uid now cfg l s) =
     l\<lparr>currentTrace := Some (tr\<lparr>gt_Spans := gt_Spans tr @
          [(span_created (CallAddLlmSpan uid now cfg))
             \<lparr>gs_Metadata := Some (case llm_Metadata cfg of None \<Rightarrow> next_map s | Some r \<Rightarrow> r)\<rparr>]\<rparr>)\<rparr>"
  by (simp add: AddLlmSpan_def Let_def ensure_map_def make_map_def map_assign_def split: option.splits)

lemma no_metadata_update: "no_metadata (sp\<lparr>gs_Metadata := m\<rparr>) = no_metadata sp"
  by (simp add: no_metadata_def)

lemma no_metadata_span_created: "no_metadata (span_created c) = span_created c"
  by (cases c) (simp_all add: no_metadata_def)

lemma do_add_spans:
  assumes "currentTrace l = Some tr"
  shows "\<exists>sp. no_metadata sp = span_created c \<and>
        fst (do_add c (l, s)) = l\<lparr>currentTrace := Some (tr\<lparr>gt_Spans := gt_Spans tr @ [sp]\<rparr>)\<rparr>"
proof (cases c)
  case (CallAddSpan uid now cfg)
  have "fst (do_add c (l, s)) = fst (AddSpan uid now cfg l s)"
    using CallAddSpan by simp
  with AddSpan_spans [OF assms, of uid now cfg s] CallAddSpan
    no_metadata_update no_metadata_span_created
  show ?thesis by metis
next
  case (CallAddLlmSpan uid now cfg)
  have "fst (do_add c (l, s)) = fst (AddLlmSpan uid now cfg l s)"
    using CallAddLlmSpan by simp
  with AddLlmSpan_spans [OF assms, of uid now cfg s] CallAddLlmSpan
    no_metadata_update no_metadata_span_created
  show ?thesis by metis
qed

text \<open>
  The add calls of a sequence append their spans one after the other and change nothing
  else of the logger: induction on the sequence, for any logger with an active trace.
\<close>

lemma do_adds_spans:
  "currentTrace l = Some tr \<Longrightarrow>
   \<exists>sps. map no_metadata sps = map span_created cs \<and>
         fst (do_adds cs (l, s)) = l\<lparr>currentTrace := Some (tr\<lparr>gt_Spans := gt_Spans tr @ sps\<rparr>)\<rparr>"
proof (induction cs arbitrary: l s tr)
  case Nil
  then show ?case by simp
next
  case (Cons c cs)
  from do_add_spans [OF Cons.prems, of c s] obtain sp where
    sp: "no_metadata sp = span_created c" and
    l1: "fst (do_add c (l, s)) = l\<lparr>currentTrace := Some (tr\<lparr>gt_Spans := gt_Spans tr @ [sp]\<rparr>)\<rparr>"
    by blast
  obtain l' s' where st: "do_add c (l, s) = (l', s')" by (cases "do_add c (l, s)")
  with l1 have l': "l' = l\<lparr>currentTrace := Some (tr\<lparr>gt_Spans := gt_Spans tr @ [sp]\<rparr>)\<rparr>" by simp
  then have cur: "currentTrace l' = Some (tr\<lparr>gt_Spans := gt_Spans tr @ [sp]\<rparr>)" by simp
  from Cons.IH [OF cur, of s'] obtain sps where
    sps: "map no_metadata sps = map span_created cs" and
    fin: "fst (do_adds cs (l', s')) =
            l'\<lparr>currentTrace := Some (tr\<lparr>gt_Spans := gt_Spans tr @ [sp]\<rparr>\<lparr>gt_Spans := gt_Spans (tr\<lparr>gt_Spans := gt_Spans tr @ [sp]\<rparr>) @ sps\<rparr>)\<rparr>"
    by blast
  have "map no_metadata (sp # sps) = map span_created (c # cs)" using sp sps by simp
  moreover have "fst (do_adds (c # cs) (l, s)) =
      l\<lparr>currentTrace := Some (tr\<lparr>gt_Spans := gt_Spans tr @ (sp # sps)\<rparr>)\<rparr>"
    using fin st l' by simp
  ultimately show ?case by blast
qed

lemma Conclude_spans:
  "currentTrace l = Some tr \<Longrightarrow>
   \<exists>t. traceBuffer (fst (Conclude cfg l s)) = traceBuffer l @ [t] \<and> gt_Spans t = gt_Spans tr
       \<and> gt_ID t = gt_ID tr"
  by (simp add: Conclude_def Let_def case_prod_beta)

lemma StartTraceWithContext_current:
  "fst (StartTraceWithContext uid now cfg l s) =
     l\<lparr>currentTrace := Some
          \<lparr>gt_ID = uid, gt_Name = tc_Name cfg, gt_Input = tc_Input cfg, gt_Output = [],
           gt_Spans = [],
           gt_Metadata = (if tc_Tags cfg = [] then tc_Metadata cfg
                          else Some (case tc_Metadata cfg of None \<Rightarrow> next_map s | Some r \<Rightarrow> r)),
           gt_StartTime = now, gt_EndTime = 0\<rparr>\<rparr>"
  by (simp add: StartTraceWithContext_def Let_def ensure_map_def make_map_def split: option.splits)

lemma AddSpan1_spans:
  "currentTrace1 l = Some tr \<Longrightarrow>
   fst (snd (AddSpan1 cfg l s)) =
     l\<lparr>currentTrace1 := Some (tr\<lparr>tr_Spans := tr_Spans tr @
          [(span_created1 (CallAddSpan1 cfg))\<lparr>sp_Metadata := sc1_Metadata cfg\<rparr>]\<rparr>)\<rparr>"
  by (simp add: AddSpan1_def Let_def)

lemma AddLlmSpan1_spans:
  "currentTrace1 l = Some tr \<Longrightarrow>
   fst (AddLlmSpan1 cfg l s) =
     l\<lparr>currentTrace1 := Some (tr\<lparr>tr_Spans := tr_Spans tr @
          [(span_created1 (CallAddLlmSpan1 cfg))
             \<lparr>sp_Metadata := Some (case llm1_Metadata cfg of None \<Rightarrow> next_map s | Some r \<Rightarrow> r)\<rparr>]\<rparr>)\<rparr>"
  by (simp add: AddLlmSpan1_def Let_def ensure_map_def make_map_def map_assign_def split: option.splits)

lemma no_metadata1_update: "no_metadata1 (sp\<lparr>sp_Metadata := m\<rparr>) = no_metadata1 sp"
  by (simp add: no_metadata1_def)

lemma no_metadata1_span_created1: "no_metadata1 (span_created1 c) = span_created1 c"
  by (cases c) (simp_all add: no_metadata1_def)

lemma do_add1_spans:
  assumes "currentTrace1 l = Some tr"
  shows "\<exists>sp. no_metadata1 sp = span_created1 c \<and>
        fst (do_add1 c (l, s)) = l\<lparr>currentTrace1 := Some (tr\<lparr>tr_Spans := tr_Spans tr @ [sp]\<rparr>)\<rparr>"
proof (cases c)
  case (CallAddSpan1 cfg)
  have "fst (do_add1 c (l, s)) = fst (snd (AddSpan1 cfg l s))"
    using CallAddSpan1 by simp
  with AddSpan1_spans [OF assms, of cfg s] CallAddSpan1
    no_metadata1_update no_metadata1_span_created1
  show ?thesis by metis
next
  case (CallAddLlmSpan1 cfg)
  have "fst (do_add1 c (l, s)) = fst (AddLlmSpan1 cfg l s)"
    using CallAddLlmSpan1 by simp
  with AddLlmSpan1_spans [OF assms, of cfg s] CallAddLlmSpan1
    no_metadata1_update no_metadata1_span_created1
  show ?thesis by metis
qed

lemma do_adds1_spans:
  "currentTrace1 l = Some tr \<Longrightarrow>
   \<exists>sps. map no_metadata1 sps = map span_created1 cs \<and>
         fst (do_adds1 cs (l, s)) = l\<lparr>currentTrace1 := Some (tr\<lparr>tr_Spans := tr_Spans tr @ sps\<rparr>)\<rparr>"
proof (induction cs arbitrary: l s tr)
  case Nil
  then show ?case by simp
next
  case (Cons c cs)
  from do_add1_spans [OF Cons.prems, of c s] obtain sp where
    sp: "no_metadata1 sp = span_created1 c" and
    l1: "fst (do_add1 c (l, s)) = l\<lparr>currentTrace1 := Some (tr\<lparr>tr_Spans := tr_Spans tr @ [sp]\<rparr>)\<rparr>"
    by blast
  obtain l' s' where st: "do_add1 c (l, s) = (l', s')" by (cases "do_add1 c (l, s)")
  with l1 have l': "l' = l\<lparr>currentTrace1 := Some (tr\<lparr>tr_Spans := tr_Spans tr @ [sp]\<rparr>)\<rparr>" by simp
  then have cur: "currentTrace1 l' = Some (tr\<lparr>tr_Spans := tr_Spans tr @ [sp]\<rparr>)" by simp
  from Cons.IH [OF cur, of s'] obtain sps where
    sps: "map no_metadata1 sps = map span_created1 cs" and
    fin: "fst (do_adds1 cs (l', s')) =
            l'\<lparr>currentTrace1 := Some (tr\<lparr>tr_Spans := tr_Spans tr @ [sp]\<rparr>\<lparr>tr_Spans := tr_Spans (tr\<lparr>tr_Spans := tr_Spans tr @ [sp]\<rparr>) @ sps\<rparr>)\<rparr>"
    by blast
  have "map no_metadata1 (sp # sps) = map span_created1 (c # cs)" using sp sps by simp
  moreover have "fst (do_adds1 (c # cs) (l, s)) =
      l\<lparr>currentTrace1 := Some (tr\<lparr>tr_Spans := tr_Spans tr @ (sp # sps)\<rparr>)\<rparr>"
    using fin st l' by simp
  ultimately show ?case by blast
qed

text \<open>
  \<open>append\<close> gives a slice that holds the old elements and then the new ones, whether it
  writes in place or allocates.
\<close>

lemma store_elems_upt:
  "map (store_elems f (off + n) xs) [off ..< off + (n + length xs)] = map f [off ..< off + n] @ xs"
  by (rule nth_equalityI) (auto simp: store_elems_def nth_append)

lemma map_nth_upt:
  "n = length ys \<Longrightarrow> map (\<lambda>j. if j < n then ys ! j else []) [0 ..< n] = ys"
  by (rule nth_equalityI) auto

lemma go_append_elems:
  "slice_elems (arrays (snd (go_append e sl xs s))) (fst (go_append e sl xs s)) =
     slice_elems (arrays s) sl @ xs"
proof (cases "slice_len sl + length xs \<le> slice_cap sl")
  case True
  then show ?thesis
    by (cases sl) (simp_all add: go_append_def store_elems_upt)
next
  case False
  then show ?thesis
    by (cases sl) (simp_all add: go_append_def Let_def map_nth_upt)
qed

lemma go_append_rest:
  "(snd (go_append e sl xs s))\<lparr>arrays := arrays s, next_arr := next_arr s\<rparr> = s"
  by (cases sl) (simp_all add: go_append_def Let_def)

lemma Conclude1_active:
  "currentTrace1 l = Some tr \<Longrightarrow>
   Conclude1 e cfg l s =
     (l\<lparr>currentTrace1 := Some (tr\<lparr>tr_Output := cc1_Output cfg,
                                     tr_DurationNs := cc1_DurationNs cfg,
                                     tr_Tags := fst (go_append e (tr_Tags tr) (cc1_Tags cfg) s)\<rparr>)\<rparr>,
      snd (go_append e (tr_Tags tr) (cc1_Tags cfg) s))"
  by (simp add: Conclude1_def case_prod_beta)

text \<open>
  Claim C2. Start a trace, make any sequence of \<open>AddSpan\<close> and \<open>AddLlmSpan\<close> calls, and
  conclude. In the buffered logger the buffer then ends with the trace that was started
  (it has the identifier given at the start), and in the direct logger that trace is the
  current one; in both, the spans of the trace are, position by position, the spans that
  the calls built: as many as there were calls, the n-th with the identifier, name, input,
  output, times, type and status of the n-th call (buffered logger), or with the name,
  input, output, duration and tags slice of the n-th call (direct logger). The metadata
  reference of a span is left out of the comparison (what an LLM span's map holds is the
  subject of C7). The tags of a span of the direct logger are the caller's slice, compared
  as the slice it is: pointer, length and capacity. What the array behind it holds is not
  part of the comparison, and \<open>Conclude\<close> can rewrite it, as the lemma after the
  theorem shows.
\<close>

theorem spans_in_call_order:
  "(\<exists>t. traceBuffer (fst (case do_adds cs (StartTraceWithContext uid now tc l s) of
                           (l2, s2) \<Rightarrow> Conclude cc l2 s2)) = traceBuffer l @ [t] \<and>
        gt_ID t = uid \<and>
        map no_metadata (gt_Spans t) = map span_created cs) \<and>
   (\<exists>t. currentTrace1 (fst (case do_adds1 cs1 (StartTraceWithContext1 tc1 l1 s) of
                             (l2, s2) \<Rightarrow> Conclude1 e cc1 l2 s2)) = Some t \<and>
        map no_metadata1 (tr_Spans t) = map span_created1 cs1)"
proof
  obtain l1' s1' where st: "StartTraceWithContext uid now tc l s = (l1', s1')"
    by (cases "StartTraceWithContext uid now tc l s")
  with StartTraceWithContext_current [of uid now tc l s]
  obtain tr where cur: "currentTrace l1' = Some tr" and tr: "gt_Spans tr = []" "gt_ID tr = uid"
    and buf: "traceBuffer l1' = traceBuffer l"
    by simp
  from do_adds_spans [OF cur, of cs s1'] obtain sps where
    sps: "map no_metadata sps = map span_created cs" and
    l2: "fst (do_adds cs (l1', s1')) = l1'\<lparr>currentTrace := Some (tr\<lparr>gt_Spans := gt_Spans tr @ sps\<rparr>)\<rparr>"
    by blast
  obtain l2' s2' where st2: "do_adds cs (l1', s1') = (l2', s2')" by (cases "do_adds cs (l1', s1')")
  with l2 have l2': "l2' = l1'\<lparr>currentTrace := Some (tr\<lparr>gt_Spans := gt_Spans tr @ sps\<rparr>)\<rparr>" by simp
  then have cur2: "currentTrace l2' = Some (tr\<lparr>gt_Spans := gt_Spans tr @ sps\<rparr>)" by simp
  from Conclude_spans [OF cur2, of cc s2'] obtain t where
    "traceBuffer (fst (Conclude cc l2' s2')) = traceBuffer l2' @ [t]"
    "gt_Spans t = gt_Spans (tr\<lparr>gt_Spans := gt_Spans tr @ sps\<rparr>)"
    "gt_ID t = gt_ID (tr\<lparr>gt_Spans := gt_Spans tr @ sps\<rparr>)"
    by blast
  then have "traceBuffer (fst (Conclude cc l2' s2')) = traceBuffer l @ [t] \<and> gt_ID t = uid \<and>
        map no_metadata (gt_Spans t) = map span_created cs"
    using l2' buf tr sps by simp
  then show "\<exists>t. traceBuffer (fst (case do_adds cs (StartTraceWithContext uid now tc l s) of
                           (l2, s2) \<Rightarrow> Conclude cc l2 s2)) = traceBuffer l @ [t] \<and>
        gt_ID t = uid \<and> map no_metadata (gt_Spans t) = map span_created cs"
    using st st2 by auto
next
  let ?tr = "\<lparr>tr_Input = tc1_Input tc1, tr_Output = [], tr_DurationNs = 0, tr_Spans = [],
           tr_Tags = tc1_Tags tc1, tr_Metadata = None\<rparr>"
  let ?l = "l1\<lparr>currentTrace1 := Some ?tr\<rparr>"
  have st: "StartTraceWithContext1 tc1 l1 s = (?l, s)"
    by (simp add: StartTraceWithContext1_def)
  have cur: "currentTrace1 ?l = Some ?tr" by simp
  from do_adds1_spans [OF cur, of cs1 s] obtain sps where
    sps: "map no_metadata1 sps = map span_created1 cs1" and
    l2: "fst (do_adds1 cs1 (?l, s)) = ?l\<lparr>currentTrace1 := Some (?tr\<lparr>tr_Spans := tr_Spans ?tr @ sps\<rparr>)\<rparr>"
    by blast
  obtain l2' s2' where st2: "do_adds1 cs1 (?l, s) = (l2', s2')" by (cases "do_adds1 cs1 (?l, s)")
  with l2 have l2': "l2' = ?l\<lparr>currentTrace1 := Some (?tr\<lparr>tr_Spans := tr_Spans ?tr @ sps\<rparr>)\<rparr>" by simp
  have "\<exists>t. currentTrace1 (fst (Conclude1 e cc1 l2' s2')) = Some t \<and>
        map no_metadata1 (tr_Spans t) = map span_created1 cs1"
    using l2' sps by (simp add: Conclude1_def case_prod_beta)
  then show "\<exists>t. currentTrace1 (fst (case do_adds1 cs1 (StartTraceWithContext1 tc1 l1 s) of
                             (l2, s2) \<Rightarrow> Conclude1 e cc1 l2 s2)) = Some t \<and>
        map no_metadata1 (tr_Spans t) = map span_created1 cs1"
    using st st2 by simp
qed

text \<open>
  The direct logger on the caller's array \<open>["x", "y"]\<close>: the trace starts with the tags
  \<open>["x"]\<close> (capacity 2), a span is added with the tags \<open>["x", "y"]\<close>, and \<open>Conclude\<close>
  gets the tag \<open>done\<close>. The append fits the capacity and writes \<open>done\<close> over \<open>y\<close>:
  the span keeps its slice, and the elements of that slice are now \<open>["x", "done"]\<close>.
\<close>

lemma conclude_append_rewrites_span_tags:
  "(case do_adds1 [CallAddSpan1 ex_span1] (StartTraceWithContext1 ex_tc1 ex_logger1 sys_tags) of
      (l2, s2) \<Rightarrow>
        map_option (\<lambda>t. map (\<lambda>sp. slice_elems (arrays s2) (sp_Tags sp)) (tr_Spans t)) (currentTrace1 l2)
          = Some [[''x'', ''y'']] \<and>
        (case Conclude1 env_ok ex_conclude1 l2 s2 of
           (l3, s3) \<Rightarrow>
             map_option (\<lambda>t. map sp_Tags (tr_Spans t)) (currentTrace1 l3) = Some [Slice 0 0 2 2] \<and>
             map_option (\<lambda>t. map (\<lambda>sp. slice_elems (arrays s3) (sp_Tags sp)) (tr_Spans t))
               (currentTrace1 l3) = Some [[''x'', ''done'']] \<and>
             map_option (\<lambda>t. slice_elems (arrays s3) (tr_Tags t)) (currentTrace1 l3)
               = Some [''x'', ''done'']))"
  by (simp add: StartTraceWithContext1_def AddSpan1_def Conclude1_def go_append_def store_elems_def
        Let_def case_prod_beta
        ex_tc1_def ex_span1_def ex_conclude1_def ex_logger1_def sys_tags_def sys0_def
        upt_rec [of 0] upt_rec [of 1] upt_rec [of 2] upt_rec [of "Suc 0"])

lemma AddLlmSpan_active:
  "currentTrace l = Some tr \<Longrightarrow>
   AddLlmSpan uid now cfg l s =
     (let m = (case llm_Metadata cfg of None \<Rightarrow> next_map s | Some r \<Rightarrow> r);
          base = (case llm_Metadata cfg of None \<Rightarrow> Map.empty | Some r \<Rightarrow> heap s r);
          s1 = snd (ensure_map (llm_Metadata cfg) s)
      in (l\<lparr>currentTrace := Some (tr\<lparr>gt_Spans := gt_Spans tr @
               [\<lparr>gs_ID = uid, gs_Name = ''llm-span'', gs_Input = AString (llm_Input cfg),
                 gs_Output = AString (llm_Output cfg), gs_StartTime = now,
                 gs_EndTime = now + sint (llm_DurationNs cfg), gs_Type = ''llm'',
                 gs_Status = ''SUCCESS'', gs_Metadata = Some m\<rparr>]\<rparr>)\<rparr>,
          s1\<lparr>heap := (heap s1)(m :=
                 (if llm_Tags cfg = [] then base
                  else base(''tags'' \<mapsto> AString (strings_Join (llm_Tags cfg) '','')))
                 (''model'' \<mapsto> AString (llm_Model cfg),
                  ''llm.token_count.input'' \<mapsto> AInt (llm_NumInputTokens cfg),
                  ''llm.token_count.output'' \<mapsto> AInt (llm_NumOutputTokens cfg),
                  ''llm.token_count.total'' \<mapsto> AInt (llm_TotalTokens cfg)))\<rparr>))"
  by (simp add: AddLlmSpan_def Let_def time_Add_def ensure_map_def make_map_def map_assign_def
           split: option.splits)

lemma AddLlmSpan1_active:
  "currentTrace1 l = Some tr \<Longrightarrow>
   AddLlmSpan1 cfg l s =
     (let m = (case llm1_Metadata cfg of None \<Rightarrow> next_map s | Some r \<Rightarrow> r);
          base = (case llm1_Metadata cfg of None \<Rightarrow> Map.empty | Some r \<Rightarrow> heap s r);
          s1 = snd (ensure_map (llm1_Metadata cfg) s)
      in (l\<lparr>currentTrace1 := Some (tr\<lparr>tr_Spans := tr_Spans tr @
               [\<lparr>sp_Name = ''llm'', sp_Input = AString (llm1_Input cfg),
                 sp_Output = AString (llm1_Output cfg), sp_DurationNs = llm1_DurationNs cfg,
                 sp_Metadata = Some m, sp_Tags = llm1_Tags cfg\<rparr>]\<rparr>)\<rparr>,
          s1\<lparr>heap := (heap s1)(m :=
                 base(''model'' \<mapsto> AString (llm1_Model cfg),
                  ''num_input_tokens'' \<mapsto> AInt (llm1_NumInputTokens cfg),
                  ''num_output_tokens'' \<mapsto> AInt (llm1_NumOutputTokens cfg),
                  ''total_tokens'' \<mapsto> AInt (llm1_TotalTokens cfg)))\<rparr>))"
  by (simp add: AddLlmSpan1_def Let_def ensure_map_def make_map_def map_assign_def
           split: option.splits)

text \<open>
  Claim C7, as amended. \<open>AddLlmSpan\<close> on a logger with an active trace appends one span
  whose metadata is a map \<open>m\<close>, the caller's or a new one when the caller gave none. In the
  buffered logger the span has the type \<open>llm\<close>. The spans of the direct logger have no
  kind or type field: the span gets the fixed name \<open>llm\<close>. After the call \<open>m\<close> holds the
  given model name and the three token counts, and under every key that the call does not
  write it holds what the caller's map held. The call writes the key \<open>model\<close> and the three
  token-count keys, and in the buffered logger the key \<open>tags\<close> when tags are given; an
  entry that the caller supplied under one of these keys is overwritten.
\<close>

theorem llm_span_kind_and_metadata:
  "currentTrace l = Some tr \<Longrightarrow> currentTrace1 l1 = Some tr1 \<Longrightarrow>
   (let m = (case llm_Metadata cfg of None \<Rightarrow> next_map s | Some r \<Rightarrow> r);
        base = (case llm_Metadata cfg of None \<Rightarrow> Map.empty | Some r \<Rightarrow> heap s r);
        (l', s') = AddLlmSpan uid now cfg l s
    in l' = l\<lparr>currentTrace := Some (tr\<lparr>gt_Spans := gt_Spans tr @
               [\<lparr>gs_ID = uid, gs_Name = ''llm-span'', gs_Input = AString (llm_Input cfg),
                 gs_Output = AString (llm_Output cfg), gs_StartTime = now,
                 gs_EndTime = now + sint (llm_DurationNs cfg), gs_Type = ''llm'',
                 gs_Status = ''SUCCESS'', gs_Metadata = Some m\<rparr>]\<rparr>)\<rparr> \<and>
       heap s' m =
         (if llm_Tags cfg = [] then base
          else base(''tags'' \<mapsto> AString (strings_Join (llm_Tags cfg) '','')))
         (''model'' \<mapsto> AString (llm_Model cfg),
          ''llm.token_count.input'' \<mapsto> AInt (llm_NumInputTokens cfg),
          ''llm.token_count.output'' \<mapsto> AInt (llm_NumOutputTokens cfg),
          ''llm.token_count.total'' \<mapsto> AInt (llm_TotalTokens cfg)) \<and>
       heap s' m ''model'' = Some (AString (llm_Model cfg)) \<and>
       heap s' m ''llm.token_count.input'' = Some (AInt (llm_NumInputTokens cfg)) \<and>
       heap s' m ''llm.token_count.output'' = Some (AInt (llm_NumOutputTokens cfg)) \<and>
       heap s' m ''llm.token_count.total'' = Some (AInt (llm_TotalTokens cfg)) \<and>
       (\<forall>k. k \<notin> {''tags'', ''model'', ''llm.token_count.input'', ''llm.token_count.output'',
                  ''llm.token_count.total''} \<longrightarrow> heap s' m k = base k)) \<and>
   (let m = (case llm1_Metadata cfg1 of None \<Rightarrow> next_map s | Some r \<Rightarrow> r);
        base = (case llm1_Metadata cfg1 of None \<Rightarrow> Map.empty | Some r \<Rightarrow> heap s r);
        (l', s') = AddLlmSpan1 cfg1 l1 s
    in l' = l1\<lparr>currentTrace1 := Some (tr1\<lparr>tr_Spans := tr_Spans tr1 @
               [\<lparr>sp_Name = ''llm'', sp_Input = AString (llm1_Input cfg1),
                 sp_Output = AString (llm1_Output cfg1), sp_DurationNs = llm1_DurationNs cfg1,
                 sp_Metadata = Some m, sp_Tags = llm1_Tags cfg1\<rparr>]\<rparr>)\<rparr> \<and>
       heap s' m =
         base(''model'' \<mapsto> AString (llm1_Model cfg1),
              ''num_input_tokens'' \<mapsto> AInt (llm1_NumInputTokens cfg1),
              ''num_output_tokens'' \<mapsto> AInt (llm1_NumOutputTokens cfg1),
              ''total_tokens'' \<mapsto> AInt (llm1_TotalTokens cfg1)) \<and>
       heap s' m ''model'' = Some (AString (llm1_Model cfg1)) \<and>
       heap s' m ''num_input_tokens'' = Some (AInt (llm1_NumInputTokens cfg1)) \<and>
       heap s' m ''num_output_tokens'' = Some (AInt (llm1_NumOutputTokens cfg1)) \<and>
       heap s' m ''total_tokens'' = Some (AInt (llm1_TotalTokens cfg1)) \<and>
       (\<forall>k. k \<notin> {''model'', ''num_input_tokens'', ''num_output_tokens'', ''total_tokens''}
            \<longrightarrow> heap s' m k = base k))"
  by (simp add: AddLlmSpan_active AddLlmSpan1_active Let_def)

theorem llm_span_kind_and_metadata_witness:
  "currentTrace (ex_logger\<lparr>currentTrace := Some ex_trace\<rparr>) = Some ex_trace \<and>
   currentTrace1 (ex_logger1\<lparr>currentTrace1 := Some ex_trace1\<rparr>) = Some ex_trace1 \<and>
   map_option (\<lambda>t. map gs_Type (gt_Spans t)) (currentTrace
      (fst (AddLlmSpan ''s-1'' 6 ex_llm_meta (ex_logger\<lparr>currentTrace := Some ex_trace\<rparr>) sys_meta)))
     = Some [''llm''] \<and>
   heap (snd (AddLlmSpan ''s-1'' 6 ex_llm_meta (ex_logger\<lparr>currentTrace := Some ex_trace\<rparr>) sys_meta)) 0
       ''model''
     = Some (AString ''m1'') \<and>
   heap (snd (AddLlmSpan ''s-1'' 6 ex_llm_meta (ex_logger\<lparr>currentTrace := Some ex_trace\<rparr>) sys_meta)) 0
       ''llm.token_count.total''
     = Some (AInt 2) \<and>
   heap (snd (AddLlmSpan ''s-1'' 6 ex_llm_meta (ex_logger\<lparr>currentTrace := Some ex_trace\<rparr>) sys_meta)) 0
       ''temperature''
     = Some (AOther 7) \<and>
   map_option (\<lambda>t. map sp_Name (tr_Spans t)) (currentTrace1
      (fst (AddLlmSpan1 ex_llm1_meta (ex_logger1\<lparr>currentTrace1 := Some ex_trace1\<rparr>) sys_meta)))
     = Some [''llm''] \<and>
   heap (snd (AddLlmSpan1 ex_llm1_meta (ex_logger1\<lparr>currentTrace1 := Some ex_trace1\<rparr>) sys_meta)) 0
       ''total_tokens''
     = Some (AInt 2) \<and>
   heap (snd (AddLlmSpan1 ex_llm1_meta (ex_logger1\<lparr>currentTrace1 := Some ex_trace1\<rparr>) sys_meta)) 0
       ''temperature''
     = Some (AOther 7)"
  using llm_span_kind_and_metadata [where l = "ex_logger\<lparr>currentTrace := Some ex_trace\<rparr>"
          and tr = ex_trace and ?l1.0 = "ex_logger1\<lparr>currentTrace1 := Some ex_trace1\<rparr>"
          and ?tr1.0 = ex_trace1 and cfg = ex_llm_meta and s = sys_meta and uid = "''s-1''" and now = 6
          and ?cfg1.0 = ex_llm1_meta]
  by (simp add: Let_def case_prod_beta ex_llm_meta_def ex_llm1_meta_def ex_llm_def ex_llm1_def
        sys_meta_def sys0_def ex_trace_def ex_trace1_def)

text \<open>
  The claim as written fails in two places. In the direct logger the span of
  \<open>AddLlmSpan\<close> carries no kind: a generic \<open>AddSpan\<close> that is named \<open>llm\<close> and has the same
  input, output, duration, tags and metadata map leaves the very same logger. And in both
  loggers the caller's entry \<open>model\<close> is not kept beside the given model name: the call
  writes over it.
\<close>

theorem llm_span_counterexample:
  "fst (AddLlmSpan1 ex_llm1_meta (ex_logger1\<lparr>currentTrace1 := Some ex_trace1\<rparr>) sys_meta) =
     fst (snd (AddSpan1 ex_span1_llm (ex_logger1\<lparr>currentTrace1 := Some ex_trace1\<rparr>) sys_meta)) \<and>
   heap sys_meta 0 ''model'' = Some (AString ''caller-model'') \<and>
   heap (snd (AddLlmSpan ''s-1'' 6 ex_llm_meta (ex_logger\<lparr>currentTrace := Some ex_trace\<rparr>) sys_meta)) 0
       ''model''
     = Some (AString ''m1'') \<and>
   heap (snd (AddLlmSpan1 ex_llm1_meta (ex_logger1\<lparr>currentTrace1 := Some ex_trace1\<rparr>) sys_meta)) 0
       ''model''
     = Some (AString ''m1'')"
  by (simp add: AddLlmSpan_def AddLlmSpan1_def AddSpan1_def Let_def ensure_map_def map_assign_def
        ex_llm_meta_def ex_llm1_meta_def ex_llm_def ex_llm1_def ex_span1_llm_def sys_meta_def sys0_def)

section \<open>Starting and concluding a trace\<close>

lemma StartTraceWithContext_result:
  "StartTraceWithContext uid now cfg l s =
     (l\<lparr>currentTrace := Some
          \<lparr>gt_ID = uid, gt_Name = tc_Name cfg, gt_Input = tc_Input cfg, gt_Output = [],
           gt_Spans = [],
           gt_Metadata = (if tc_Tags cfg = [] then tc_Metadata cfg
                          else Some (case tc_Metadata cfg of None \<Rightarrow> next_map s | Some r \<Rightarrow> r)),
           gt_StartTime = now, gt_EndTime = 0\<rparr>\<rparr>,
      if tc_Tags cfg = [] then s
      else map_assign (case tc_Metadata cfg of None \<Rightarrow> next_map s | Some r \<Rightarrow> r) ''tags''
             (AString (strings_Join (tc_Tags cfg) '','')) (snd (ensure_map (tc_Metadata cfg) s)))"
  by (simp add: StartTraceWithContext_def Let_def ensure_map_def make_map_def split: option.splits)

text \<open>
  Claim C5. \<open>StartTraceWithContext\<close> on a logger that has an active trace: the buffer is
  what it was (the old trace is not put there), the active trace is the new one (the given
  identifier, name and input, no span, start time now, output and end time unset), and
  the logger and process state after the call are those the call gives on the same logger
  without an active trace, so nothing of the old trace is left. The direct logger has no
  buffer; its new trace replaces the old one in the same way. The active trace is one
  optional field of the logger, so there is never more than one.
\<close>

theorem start_trace_discards_active:
  "currentTrace l = Some old \<Longrightarrow> currentTrace1 l1 = Some old1 \<Longrightarrow>
   (case StartTraceWithContext uid now cfg l s of (l', s') \<Rightarrow>
      traceBuffer l' = traceBuffer l \<and>
      (l', s') = StartTraceWithContext uid now cfg (l\<lparr>currentTrace := None\<rparr>) s \<and>
      (case currentTrace l' of None \<Rightarrow> False
       | Some t \<Rightarrow> gt_ID t = uid \<and> gt_Name t = tc_Name cfg \<and> gt_Input t = tc_Input cfg \<and>
                   gt_Spans t = [] \<and> gt_StartTime t = now \<and> gt_Output t = [] \<and> gt_EndTime t = 0)) \<and>
   StartTraceWithContext1 cfg1 l1 s =
     (l1\<lparr>currentTrace1 := Some \<lparr>tr_Input = tc1_Input cfg1, tr_Output = [], tr_DurationNs = 0,
                                 tr_Spans = [], tr_Tags = tc1_Tags cfg1, tr_Metadata = None\<rparr>\<rparr>, s) \<and>
   StartTraceWithContext1 cfg1 l1 s = StartTraceWithContext1 cfg1 (l1\<lparr>currentTrace1 := None\<rparr>) s"
  by (simp add: StartTraceWithContext_result StartTraceWithContext1_def)

theorem start_trace_discards_active_witness:
  "currentTrace (ex_logger\<lparr>currentTrace := Some ex_trace\<rparr>) = Some ex_trace \<and>
   currentTrace1 (ex_logger1\<lparr>currentTrace1 := Some ex_trace1\<rparr>) = Some ex_trace1 \<and>
   traceBuffer (fst (StartTraceWithContext ''t-2'' 7 ex_tc (ex_logger\<lparr>currentTrace := Some ex_trace\<rparr>) sys0)) = [] \<and>
   map_option gt_ID (currentTrace
     (fst (StartTraceWithContext ''t-2'' 7 ex_tc (ex_logger\<lparr>currentTrace := Some ex_trace\<rparr>) sys0))) = Some ''t-2'' \<and>
   map_option tr_Input (currentTrace1
     (fst (StartTraceWithContext1 ex_tc1 (ex_logger1\<lparr>currentTrace1 := Some ex_trace1\<rparr>) sys0))) = Some ''ping''"
  using start_trace_discards_active [where l = "ex_logger\<lparr>currentTrace := Some ex_trace\<rparr>"
          and old = ex_trace and ?l1.0 = "ex_logger1\<lparr>currentTrace1 := Some ex_trace1\<rparr>"
          and ?old1.0 = ex_trace1 and uid = "''t-2''" and now = 7 and cfg = ex_tc and s = sys0
          and ?cfg1.0 = ex_tc1]
  by (simp add: case_prod_beta StartTraceWithContext_def Let_def ex_logger_def ex_tc1_def ex_tc_def)

lemma Conclude_active:
  "currentTrace l = Some tr \<Longrightarrow>
   Conclude cfg l s =
     (let m = (case gt_Metadata tr of None \<Rightarrow> next_map s | Some r \<Rightarrow> r);
          tr' = tr\<lparr>gt_Output := cc_Output cfg,
                    gt_EndTime := gt_StartTime tr + sint (cc_DurationNs cfg),
                    gt_Metadata := (if cc_Tags cfg = [] then gt_Metadata tr else Some m)\<rparr>
      in (l\<lparr>traceBuffer := traceBuffer l @ [tr'], currentTrace := None\<rparr>,
          if cc_Tags cfg = [] then s
          else map_assign m ''completion_tags'' (AString (strings_Join (cc_Tags cfg) '',''))
                 (snd (ensure_map (gt_Metadata tr) s))))"
  by (simp add: Conclude_def Let_def time_Add_def ensure_map_def make_map_def split: option.splits)

text \<open>
  Claim C3, as amended. In the buffered logger, \<open>Conclude\<close> on a logger with an active
  trace sets the trace's output to the given output and its end timestamp to its start
  timestamp plus the given duration, merges the given tags, appends the trace to the tail
  of the flush buffer, and clears the active-trace reference. (The tags are merged into
  the trace's metadata map: joined by commas under the key \<open>completion_tags\<close>, in a new
  map when the trace had none; without tags no map is touched.) In the direct logger,
  whose traces have no timestamps and which has no flush buffer, \<open>Conclude\<close> sets the
  active trace's output to the given output and its duration to the given duration, merges
  the given tags, and leaves the trace as the active trace. (The tags are merged by
  \<open>append\<close>: afterwards the trace's tags are its tags before and then the given ones. The
  append changes nothing of the process state but the arrays; it may write into the array
  that the trace's tags had, which is the caller's.)
\<close>

theorem conclude_active_trace:
  "currentTrace l = Some tr \<Longrightarrow> currentTrace1 l1 = Some tr1 \<Longrightarrow>
   (let m = (case gt_Metadata tr of None \<Rightarrow> next_map s | Some r \<Rightarrow> r);
        base = (case gt_Metadata tr of None \<Rightarrow> Map.empty | Some r \<Rightarrow> heap s r);
        (l', s') = Conclude cfg l s
    in l' = l\<lparr>traceBuffer := traceBuffer l @
                 [tr\<lparr>gt_Output := cc_Output cfg,
                     gt_EndTime := gt_StartTime tr + sint (cc_DurationNs cfg),
                     gt_Metadata := (if cc_Tags cfg = [] then gt_Metadata tr else Some m)\<rparr>],
               currentTrace := None\<rparr> \<and>
       (if cc_Tags cfg = [] then s' = s
        else heap s' m = base(''completion_tags'' \<mapsto> AString (strings_Join (cc_Tags cfg) '','')))) \<and>
   (let (tags, s') = go_append e (tr_Tags tr1) (cc1_Tags cfg1) s
    in Conclude1 e cfg1 l1 s =
         (l1\<lparr>currentTrace1 := Some (tr1\<lparr>tr_Output := cc1_Output cfg1,
                                          tr_DurationNs := cc1_DurationNs cfg1,
                                          tr_Tags := tags\<rparr>)\<rparr>, s') \<and>
       slice_elems (arrays s') tags = slice_elems (arrays s) (tr_Tags tr1) @ cc1_Tags cfg1 \<and>
       s'\<lparr>arrays := arrays s, next_arr := next_arr s\<rparr> = s)"
  by (simp add: Conclude_active Conclude1_active Let_def map_assign_def ensure_map_def make_map_def
        case_prod_beta go_append_elems go_append_rest split: option.splits)

theorem conclude_active_trace_witness:
  "currentTrace (ex_logger\<lparr>currentTrace := Some ex_trace\<rparr>) = Some ex_trace \<and>
   currentTrace1 (ex_logger1\<lparr>currentTrace1 := Some ex_trace1\<rparr>) = Some ex_trace1 \<and>
   currentTrace (fst (Conclude ex_conclude (ex_logger\<lparr>currentTrace := Some ex_trace\<rparr>) sys0)) = None \<and>
   map gt_EndTime (traceBuffer (fst (Conclude ex_conclude (ex_logger\<lparr>currentTrace := Some ex_trace\<rparr>) sys0)))
     = [1000005] \<and>
   heap (snd (Conclude ex_conclude (ex_logger\<lparr>currentTrace := Some ex_trace\<rparr>) sys0)) 0 ''completion_tags''
     = Some (AString ''done,ok'') \<and>
   (case Conclude1 env_ok ex_conclude1 (ex_logger1\<lparr>currentTrace1 := Some ex_trace1\<rparr>) sys0 of
      (l', s') \<Rightarrow>
        map_option tr_Output (currentTrace1 l') = Some ''pong'' \<and>
        map_option (\<lambda>t. slice_elems (arrays s') (tr_Tags t)) (currentTrace1 l') = Some [''done''])"
  using conclude_active_trace [where l = "ex_logger\<lparr>currentTrace := Some ex_trace\<rparr>"
          and tr = ex_trace and ?l1.0 = "ex_logger1\<lparr>currentTrace1 := Some ex_trace1\<rparr>"
          and ?tr1.0 = ex_trace1 and cfg = ex_conclude and s = sys0 and ?cfg1.0 = ex_conclude1
          and e = env_ok]
  by (simp add: Let_def case_prod_beta ex_logger_def ex_trace_def ex_trace1_def ex_conclude_def
        ex_conclude1_def sys0_def)

text \<open>
  The claim as written fails on the direct logger: after \<open>Conclude\<close> the active-trace
  reference is not cleared. The trace, with the output and the duration set, is still the
  active trace, and the logger has no buffer that it could have been appended to.
\<close>

theorem conclude_leaves_trace_active_counterexample:
  "currentTrace1 (fst (Conclude1 env_ok ex_conclude1 (ex_logger1\<lparr>currentTrace1 := Some ex_trace1\<rparr>) sys0))
     \<noteq> None \<and>
   map_option tr_Output
     (currentTrace1 (fst (Conclude1 env_ok ex_conclude1 (ex_logger1\<lparr>currentTrace1 := Some ex_trace1\<rparr>) sys0)))
     = Some ''pong'' \<and>
   map_option tr_DurationNs
     (currentTrace1 (fst (Conclude1 env_ok ex_conclude1 (ex_logger1\<lparr>currentTrace1 := Some ex_trace1\<rparr>) sys0)))
     = Some 1000000"
  by (simp add: Conclude1_def case_prod_beta ex_conclude1_def)

lemma NewLoggerWithConfig_fresh:
  "fst (NewLoggerWithConfig e cfg s) = Returns l \<Longrightarrow> traceBuffer l = [] \<and> currentTrace l = None"
  by (simp add: NewLoggerWithConfig_def Let_def case_prod_beta
           split: if_splits outcome.splits sum.splits) auto

lemma unset_StartSession:
  "unset_until_concluded l \<Longrightarrow> unset_until_concluded (fst (snd (StartSession e name l s)))"
  by (simp add: StartSession_def Let_def case_prod_beta unset_until_concluded_def
           split: sum.splits)

lemma unset_StartTrace: "unset_until_concluded (fst (StartTraceWithContext uid now cfg l s))"
  by (simp add: StartTraceWithContext_def Let_def case_prod_beta unset_until_concluded_def)

lemma unset_AddSpan:
  "unset_until_concluded l \<Longrightarrow> unset_until_concluded (fst (AddSpan uid now cfg l s))"
  by (simp add: AddSpan_def Let_def case_prod_beta unset_until_concluded_def split: option.splits)

lemma unset_AddLlmSpan:
  "unset_until_concluded l \<Longrightarrow> unset_until_concluded (fst (AddLlmSpan uid now cfg l s))"
  by (simp add: AddLlmSpan_def Let_def case_prod_beta unset_until_concluded_def split: option.splits)

lemma unset_Conclude: "unset_until_concluded (fst (Conclude cfg l s))"
  by (simp add: Conclude_def Let_def case_prod_beta unset_until_concluded_def split: option.splits)

lemma unset_Flush:
  "unset_until_concluded l \<Longrightarrow> unset_until_concluded (fst (snd (FlushWithContext e l s)))"
  by (simp add: FlushWithContext_def Let_def case_prod_beta unset_until_concluded_def
           split: sum.splits)

lemma unset_do_call:
  "unset_until_concluded (fst st) \<Longrightarrow> unset_until_concluded (fst (do_call c st))"
proof (cases st)
  case (Pair l s)
  assume "unset_until_concluded (fst st)"
  with Pair have u: "unset_until_concluded l" by simp
  show ?thesis
  proof (cases c)
    case (CallAdd a)
    with u Pair show ?thesis by (cases a) (simp_all add: unset_AddSpan unset_AddLlmSpan)
  qed (simp_all add: Pair u unset_StartSession unset_StartTrace unset_Conclude unset_Flush Close_def)
qed

lemma unset_do_calls:
  "unset_until_concluded (fst st) \<Longrightarrow> unset_until_concluded (fst (do_calls cs st))"
  by (induction cs arbitrary: st) (simp_all add: unset_do_call)

lemma ex_new: "fst (NewLoggerWithConfig env_ok ex_config sys0) = Returns ex_logger"
  by (simp add: NewLoggerWithConfig_def ex_config_def env_ok_def sys0_def Let_def
     getOrCreateProject_def getOrCreateLogStream_def createProject_def createLogStream_def
     http_NewRequestWithContext_def httpClient_Do_def setAuthHeader_def Header_Set_def
     fmt_Printf_def quoted_def ex_logger_def galileoAPIBaseURL_def)

text \<open>
  Claim C9. Take a buffered logger as \<open>NewLoggerWithConfig\<close> returns it and make any
  sequence of calls on it (sessions, trace starts, add calls, conclusions, flushes, closes,
  in any order and with any arguments, and between them anything the caller does to the
  process state). Whenever the logger then has an active trace, the output of that trace
  is empty and its end time is the zero time: \<open>StartTraceWithContext\<close> creates it so, the add
  calls keep it so, and \<open>Conclude\<close>, which sets both, takes the trace out of
  \<open>currentTrace\<close>. (\<open>GalileoTrace\<close> has no duration field; the duration exists only as the
  end time.)
\<close>

theorem active_trace_unset:
  "NewLoggerWithConfig e cfg s0 = (Returns l0, s1) \<Longrightarrow> do_calls cs (l0, s1) = (l, s) \<Longrightarrow>
   currentTrace l = Some t \<Longrightarrow> gt_Output t = [] \<and> gt_EndTime t = 0"
proof -
  assume a: "NewLoggerWithConfig e cfg s0 = (Returns l0, s1)"
    and b: "do_calls cs (l0, s1) = (l, s)" and c: "currentTrace l = Some t"
  from a have "fst (NewLoggerWithConfig e cfg s0) = Returns l0" by simp
  then have "currentTrace l0 = None" by (simp add: NewLoggerWithConfig_fresh)
  then have "unset_until_concluded (fst (l0, s1))" by (simp add: unset_until_concluded_def)
  then have "unset_until_concluded (fst (do_calls cs (l0, s1)))" by (rule unset_do_calls)
  with b c show ?thesis by (simp add: unset_until_concluded_def)
qed

theorem active_trace_unset_witness:
  "fst (NewLoggerWithConfig env_ok ex_config sys0) = Returns ex_logger \<and>
   (let l = fst (do_calls ex_calls (ex_logger, snd (NewLoggerWithConfig env_ok ex_config sys0)))
    in map_option gt_ID (currentTrace l) = Some ''t-1'' \<and>
       map_option gt_Output (currentTrace l) = Some [] \<and>
       map_option gt_EndTime (currentTrace l) = Some 0)"
proof -
  let ?s1 = "snd (NewLoggerWithConfig env_ok ex_config sys0)"
  let ?st = "do_calls ex_calls (ex_logger, ?s1)"
  have a: "NewLoggerWithConfig env_ok ex_config sys0 = (Returns ex_logger, ?s1)"
    using ex_new by (simp add: prod_eq_iff)
  have b: "do_calls ex_calls (ex_logger, ?s1) = (fst ?st, snd ?st)" by simp
  have c: "map_option gt_ID (currentTrace (fst ?st)) = Some ''t-1''"
    by (simp add: ex_calls_def StartTraceWithContext_def AddLlmSpan_def Let_def case_prod_beta)
  then obtain t where t: "currentTrace (fst ?st) = Some t" by auto
  from active_trace_unset [OF a b t] t c ex_new show ?thesis by (simp add: Let_def)
qed

text \<open>
  Traces are values in this model, so "the discarded trace is not in the buffer" is about
  identifiers: when the identifiers that \<open>uuid.New()\<close> gives to new traces are
  pairwise distinct, the identifier of the active trace is never that of a buffered trace.
  A trace start leaves the buffer as it is (C5), so neither is the identifier of the trace
  it discards.
\<close>

lemma ids_StartSession:
  "traceBuffer (fst (snd (StartSession e name l s))) = traceBuffer l \<and>
   currentTrace (fst (snd (StartSession e name l s))) = currentTrace l"
  by (simp add: StartSession_def Let_def case_prod_beta split: sum.splits)

lemma ids_StartTrace:
  "traceBuffer (fst (StartTraceWithContext uid now cfg l s)) = traceBuffer l \<and>
   map_option gt_ID (currentTrace (fst (StartTraceWithContext uid now cfg l s))) = Some uid"
  by (simp add: StartTraceWithContext_def Let_def case_prod_beta)

lemma ids_AddSpan:
  "traceBuffer (fst (AddSpan uid now cfg l s)) = traceBuffer l \<and>
   map_option gt_ID (currentTrace (fst (AddSpan uid now cfg l s))) = map_option gt_ID (currentTrace l)"
  by (simp add: AddSpan_def Let_def case_prod_beta split: option.splits)

lemma ids_AddLlmSpan:
  "traceBuffer (fst (AddLlmSpan uid now cfg l s)) = traceBuffer l \<and>
   map_option gt_ID (currentTrace (fst (AddLlmSpan uid now cfg l s))) = map_option gt_ID (currentTrace l)"
  by (simp add: AddLlmSpan_def Let_def case_prod_beta split: option.splits)

lemma ids_Conclude:
  "map gt_ID (traceBuffer (fst (Conclude cfg l s))) =
     map gt_ID (traceBuffer l) @ (case currentTrace l of None \<Rightarrow> [] | Some t \<Rightarrow> [gt_ID t]) \<and>
   currentTrace (fst (Conclude cfg l s)) = None"
  by (simp add: Conclude_def Let_def case_prod_beta split: option.splits)

lemma ids_Flush:
  "(traceBuffer (fst (snd (FlushWithContext e l s))) = traceBuffer l \<or>
    traceBuffer (fst (snd (FlushWithContext e l s))) = []) \<and>
   currentTrace (fst (snd (FlushWithContext e l s))) = currentTrace l"
  by (simp add: FlushWithContext_def Let_def case_prod_beta split: sum.splits)

lemma ids_apart_mono_used:
  "ids_apart used l \<Longrightarrow> ids_apart (insert u used) l"
  by (auto simp: ids_apart_def split: option.splits)

lemma ids_apart_do_call:
  assumes "ids_apart used (fst st)" "set (start_uids [c]) \<inter> used = {}"
  shows "ids_apart (used \<union> set (start_uids [c])) (fst (do_call c st))"
proof (cases st)
  case (Pair l s)
  with assms have a: "ids_apart used l" by simp
  show ?thesis
  proof (cases c)
    case (CallStartSession e name)
    with a Pair ids_StartSession [of e name l s] show ?thesis
      by (auto simp: ids_apart_def split: option.splits)
  next
    case (CallStartTrace uid now cfg)
    with assms(2) have "uid \<notin> used" by simp
    with a Pair CallStartTrace ids_StartTrace [of uid now cfg l s] show ?thesis
      by (auto simp: ids_apart_def split: option.splits)
  next
    case (CallAdd ac)
    show ?thesis
    proof (cases ac)
      case (CallAddSpan uid now cfg)
      with a Pair CallAdd ids_AddSpan [of uid now cfg l s] show ?thesis
        by (auto simp: ids_apart_def split: option.splits)
    next
      case (CallAddLlmSpan uid now cfg)
      with a Pair CallAdd ids_AddLlmSpan [of uid now cfg l s] show ?thesis
        by (auto simp: ids_apart_def split: option.splits)
    qed
  next
    case (CallConclude cfg)
    from ids_Conclude [of cfg l s]
    have "gt_ID ` set (traceBuffer (fst (Conclude cfg l s))) =
            gt_ID ` set (traceBuffer l) \<union> (case currentTrace l of None \<Rightarrow> {} | Some t \<Rightarrow> {gt_ID t})"
      and "currentTrace (fst (Conclude cfg l s)) = None"
      by (auto simp flip: set_map split: option.splits)
    with a Pair CallConclude show ?thesis
      by (auto simp: ids_apart_def split: option.splits)
  next
    case (CallFlush e)
    with a Pair ids_Flush [of e l s] show ?thesis
      by (auto simp: ids_apart_def split: option.splits)
  next
    case (CallClose e)
    with a Pair ids_Flush [of e l s] show ?thesis
      by (auto simp: ids_apart_def Close_def split: option.splits)
  next
    case (CallerDoes f)
    with a Pair show ?thesis by simp
  qed
qed

lemma start_uids_Cons: "start_uids (c # cs) = start_uids [c] @ start_uids cs"
  by (cases c) simp_all

lemma ids_apart_do_calls:
  "ids_apart used (fst st) \<Longrightarrow> distinct (start_uids cs) \<Longrightarrow> set (start_uids cs) \<inter> used = {} \<Longrightarrow>
   ids_apart (used \<union> set (start_uids cs)) (fst (do_calls cs st))"
proof (induction cs arbitrary: used st)
  case Nil
  then show ?case by simp
next
  case (Cons c cs)
  have split: "start_uids (c # cs) = start_uids [c] @ start_uids cs" by (rule start_uids_Cons)
  from Cons.prems split have d: "distinct (start_uids cs)"
    and d1: "set (start_uids [c]) \<inter> set (start_uids cs) = {}"
    and u1: "set (start_uids [c]) \<inter> used = {}" and u2: "set (start_uids cs) \<inter> used = {}"
    by auto
  from ids_apart_do_call [OF Cons.prems(1) u1]
  have step: "ids_apart (used \<union> set (start_uids [c])) (fst (do_call c st))" .
  have "set (start_uids cs) \<inter> (used \<union> set (start_uids [c])) = {}" using d1 u2 by auto
  from Cons.IH [OF step d this] split show ?case by (simp add: Un_assoc)
qed

lemma active_trace_not_buffered:
  assumes "fst (NewLoggerWithConfig e cfg s0) = Returns l0" "distinct (start_uids cs)"
    "currentTrace (fst (do_calls cs (l0, s1))) = Some t"
  shows "gt_ID t \<notin> gt_ID ` set (traceBuffer (fst (do_calls cs (l0, s1))))"
proof -
  from assms(1) have "traceBuffer l0 = [] \<and> currentTrace l0 = None"
    by (rule NewLoggerWithConfig_fresh)
  then have "ids_apart {} (fst (l0, s1))" by (simp add: ids_apart_def)
  from ids_apart_do_calls [OF this assms(2)] assms(3) show ?thesis
    by (simp add: ids_apart_def)
qed

section \<open>Calls without an active trace\<close>

text \<open>
  Claim C4, as amended. On a logger without an active trace, \<open>AddSpan\<close>, \<open>AddLlmSpan\<close>
  and \<open>Conclude\<close> leave the logger as it is and return no error. In the buffered logger
  each writes one warning line to the log, and that is its only effect. In the direct
  logger they write nothing and change nothing: \<open>AddSpan\<close> returns nil, the other two
  just return.
\<close>

theorem no_trace_no_effect:
  "currentTrace l = None \<Longrightarrow> currentTrace1 l1 = None \<Longrightarrow>
     AddSpan uid now sc l s =
       (l, s\<lparr>log_out := log_out s @ [Msg ''Warning: AddSpan called without an active trace.'']\<rparr>) \<and>
     AddLlmSpan uid now lc l s =
       (l, s\<lparr>log_out := log_out s @ [Msg ''Warning: AddLlmSpan called without an active trace.'']\<rparr>) \<and>
     Conclude cc l s =
       (l, s\<lparr>log_out := log_out s @ [Msg ''Warning: Conclude called without an active trace.'']\<rparr>) \<and>
     AddSpan1 sc1 l1 s = (None, l1, s) \<and>
     AddLlmSpan1 lc1 l1 s = (l1, s) \<and>
     Conclude1 e cc1 l1 s = (l1, s)"
  by (simp add: AddSpan_def AddLlmSpan_def Conclude_def AddSpan1_def AddLlmSpan1_def Conclude1_def
        log_Println_def)

theorem no_trace_no_effect_witness:
  "currentTrace ex_logger = None \<and> currentTrace1 ex_logger1 = None \<and>
   fst (AddSpan ''u'' 7 ex_span ex_logger sys0) = ex_logger \<and>
   log_out (snd (AddSpan ''u'' 7 ex_span ex_logger sys0)) =
     [Msg ''Warning: AddSpan called without an active trace.''] \<and>
   log_out (snd (Conclude ex_conclude ex_logger sys0)) =
     [Msg ''Warning: Conclude called without an active trace.''] \<and>
   AddSpan1 ex_span1 ex_logger1 sys0 = (None, ex_logger1, sys0)"
  using no_trace_no_effect [where l = ex_logger and ?l1.0 = ex_logger1 and uid = "''u''" and now = 7
          and sc = ex_span and s = sys0 and lc = ex_llm and cc = ex_conclude and ?sc1.0 = ex_span1
          and ?lc1.0 = ex_llm1 and ?cc1.0 = ex_conclude1]
  by (simp add: ex_logger_def ex_logger1_def sys0_def)

text \<open>
  The claim as written fails on the direct logger: without an active trace its
  \<open>Conclude\<close> and \<open>AddLlmSpan\<close> return with the logger and the whole process state as
  they were, the log and the standard output still empty.
\<close>

theorem silent_without_trace_counterexample:
  "currentTrace1 ex_logger1 = None \<and>
   Conclude1 env_ok ex_conclude1 ex_logger1 sys0 = (ex_logger1, sys0) \<and>
   AddLlmSpan1 ex_llm1 ex_logger1 sys0 = (ex_logger1, sys0) \<and>
   log_out sys0 = [] \<and> std_out sys0 = []"
  by (simp add: Conclude1_def AddLlmSpan1_def ex_logger1_def sys0_def)

section \<open>Initialisation\<close>

lemma NewLoggerWithConfig1_DryRun:
  "DryRun1 (config1 (fst (NewLoggerWithConfig1 cfg s))) =
     (DryRun1 cfg \<or> APIKey1 cfg = [] \<or> ProjectID1 cfg = [] \<or> LogStreamID1 cfg = [])"
  by (simp add: NewLoggerWithConfig1_def Let_def case_prod_beta)

lemma NewLoggerWithConfig1_trace:
  "currentTrace1 (fst (NewLoggerWithConfig1 cfg s)) = None \<and>
   sent (snd (NewLoggerWithConfig1 cfg s)) = sent s"
  by (simp add: NewLoggerWithConfig1_def Let_def case_prod_beta log_Println_def)

lemma FlushWithContext1_DryRun:
  "DryRun1 (config1 l) \<Longrightarrow>
   FlushWithContext1 e l s =
     (case currentTrace1 l of
        None \<Rightarrow> (Some (Errorf ''no trace to flush''), l, s)
      | Some t \<Rightarrow>
          (case MarshalIndent_events e (heap s) (arrays s) t of
             Inl err \<Rightarrow> (Some (Wrap ''failed to serialize trace'' err), l, s)
           | Inr traceData \<Rightarrow>
               (None, l\<lparr>currentTrace1 := None\<rparr>,
                s\<lparr>log_out := log_out s @ [Msg ''Dry Run: Trace data:'', Msg traceData]\<rparr>)))"
  by (cases l) (simp add: FlushWithContext1_def Let_def log_Println_def split: option.splits sum.splits)

lemma go_append_sent: "sent (snd (go_append e sl xs s)) = sent s"
  by (cases sl) (simp_all add: go_append_def Let_def)

lemma local_ops_send_nothing:
  "sent (snd (StartTraceWithContext1 tc l s)) = sent s \<and>
   sent (snd (snd (AddSpan1 sc l s))) = sent s \<and>
   sent (snd (AddLlmSpan1 lc l s)) = sent s \<and>
   sent (snd (Conclude1 e cc l s)) = sent s"
  by (simp add: StartTraceWithContext1_def AddSpan1_def AddLlmSpan1_def Conclude1_def Let_def
        case_prod_beta ensure_map_def make_map_def map_assign_def go_append_sent
        split: option.splits)

text \<open>
  Claim C6, as amended. The direct logger is in dry-run mode exactly when the
  configuration asks for it or its API key, project identifier or log-stream identifier is
  empty, and it starts without a trace and without a request. Its \<open>StartTraceWithContext\<close>,
  \<open>AddSpan\<close>, \<open>AddLlmSpan\<close> and \<open>Conclude\<close> return no error and make no request in any
  mode. In dry-run mode \<open>FlushWithContext\<close> makes no request either: with an active trace
  that the encoder accepts, it writes the line \<open>Dry Run: Trace data:\<close> and the encoded
  trace to the log, clears the trace and returns nil; when the encoder fails it returns
  that error and keeps the trace; without an active trace it returns the error
  \<open>no trace to flush\<close>. The buffered logger has no dry-run mode: with an empty API key
  its \<open>NewLoggerWithConfig\<close> writes \<open>GALILEO_API_KEY must be provided\<close> and ends the
  process.
\<close>

theorem dry_run_mode:
  "DryRun1 (config1 l) \<Longrightarrow> APIKey cfgB = [] \<Longrightarrow>
   DryRun1 (config1 (fst (NewLoggerWithConfig1 cfg s))) =
     (DryRun1 cfg \<or> APIKey1 cfg = [] \<or> ProjectID1 cfg = [] \<or> LogStreamID1 cfg = []) \<and>
   currentTrace1 (fst (NewLoggerWithConfig1 cfg s)) = None \<and>
   sent (snd (NewLoggerWithConfig1 cfg s)) = sent s \<and>
   sent (snd (StartTraceWithContext1 tc l s)) = sent s \<and>
   sent (snd (snd (AddSpan1 sc l s))) = sent s \<and>
   sent (snd (AddLlmSpan1 lc l s)) = sent s \<and>
   sent (snd (Conclude1 e cc l s)) = sent s \<and>
   FlushWithContext1 e l s =
     (case currentTrace1 l of
        None \<Rightarrow> (Some (Errorf ''no trace to flush''), l, s)
      | Some t \<Rightarrow>
          (case MarshalIndent_events e (heap s) (arrays s) t of
             Inl err \<Rightarrow> (Some (Wrap ''failed to serialize trace'' err), l, s)
           | Inr traceData \<Rightarrow>
               (None, l\<lparr>currentTrace1 := None\<rparr>,
                s\<lparr>log_out := log_out s @ [Msg ''Dry Run: Trace data:'', Msg traceData]\<rparr>))) \<and>
   NewLoggerWithConfig e cfgB s = (Exits, log_Println ''GALILEO_API_KEY must be provided'' s)"
  by (simp only: NewLoggerWithConfig1_DryRun NewLoggerWithConfig1_trace local_ops_send_nothing
        FlushWithContext1_DryRun simp_thms)
     (simp add: NewLoggerWithConfig_def)

theorem dry_run_mode_witness:
  "DryRun1 (config1 (fst (NewLoggerWithConfig1 (ex_config1\<lparr>APIKey1 := []\<rparr>) sys0))) \<and>
   APIKey (ex_config\<lparr>APIKey := []\<rparr>) = [] \<and>
   FlushWithContext1 env_down
       ((fst (NewLoggerWithConfig1 (ex_config1\<lparr>APIKey1 := []\<rparr>) sys0))\<lparr>currentTrace1 := Some ex_trace1\<rparr>) sys0 =
     (None, fst (NewLoggerWithConfig1 (ex_config1\<lparr>APIKey1 := []\<rparr>) sys0),
      sys0\<lparr>log_out := [Msg ''Dry Run: Trace data:'', Msg ''{}'']\<rparr>) \<and>
   fst (NewLoggerWithConfig env_ok (ex_config\<lparr>APIKey := []\<rparr>) sys0) = Exits"
  using dry_run_mode [where l = "(fst (NewLoggerWithConfig1 (ex_config1\<lparr>APIKey1 := []\<rparr>) sys0))\<lparr>currentTrace1 := Some ex_trace1\<rparr>"
          and cfgB = "ex_config\<lparr>APIKey := []\<rparr>" and cfg = "ex_config1\<lparr>APIKey1 := []\<rparr>"
          and s = sys0 and tc = ex_tc1 and sc = ex_span1 and lc = ex_llm1 and cc = ex_conclude1
          and e = env_down]
     dry_run_mode [where l = "(fst (NewLoggerWithConfig1 (ex_config1\<lparr>APIKey1 := []\<rparr>) sys0))\<lparr>currentTrace1 := Some ex_trace1\<rparr>"
          and cfgB = "ex_config\<lparr>APIKey := []\<rparr>" and cfg = "ex_config1\<lparr>APIKey1 := []\<rparr>"
          and s = sys0 and tc = ex_tc1 and sc = ex_span1 and lc = ex_llm1 and cc = ex_conclude1
          and e = env_ok]
  by (simp add: NewLoggerWithConfig1_def Let_def ex_config1_def env_down_def env_ok_def sys0_def
        log_Println_def)

text \<open>
  The claim as written fails on the buffered logger, which with an empty API key returns
  no logger at all; and in the dry-run mode of the direct logger a flush without an active
  trace returns an error.
\<close>

theorem no_dry_run_counterexample:
  "NewLoggerWithConfig env_ok (ex_config\<lparr>APIKey := []\<rparr>) sys0 =
     (Exits, sys0\<lparr>log_out := [Msg ''GALILEO_API_KEY must be provided'']\<rparr>) \<and>
   DryRun1 (config1 (fst (NewLoggerWithConfig1 (ex_config1\<lparr>APIKey1 := []\<rparr>) sys0))) \<and>
   fst (FlushWithContext1 env_ok (fst (NewLoggerWithConfig1 (ex_config1\<lparr>APIKey1 := []\<rparr>) sys0)) sys0) =
     Some (Errorf ''no trace to flush'')"
  by (simp add: NewLoggerWithConfig_def NewLoggerWithConfig1_def FlushWithContext1_def
        ex_config_def ex_config1_def sys0_def log_Println_def Let_def)

section \<open>Resolving by name\<close>

text \<open>
  In the buffered logger a listing that answers 200 is searched for the exact name, and
  the first entry with that name gives the identifier, with no second request.
\<close>

lemma getOrCreateProject_exact:
  "NewRequest_err e ''GET'' (galileoAPIBaseURL @ ''/projects/all'') = None \<Longrightarrow>
   Do e (sent s) (setAuthHeader l \<lparr>req_Method = ''GET'', req_URL = galileoAPIBaseURL @ ''/projects/all'',
                                    req_Header = Map.empty, req_Body = []\<rparr>) = Inr resp \<Longrightarrow>
   StatusCode resp = 200 \<Longrightarrow>
   find (\<lambda>p. ent_Name p = n) (fst (Decode_entries e (Body resp))) = Some p \<Longrightarrow>
   fst (getOrCreateProject e n l s) = Returns (Inr (ent_ID p)) \<and>
   length (sent (snd (getOrCreateProject e n l s))) = Suc (length (sent s))"
  by (simp add: getOrCreateProject_def http_NewRequestWithContext_def httpClient_Do_def fmt_Printf_def)

text \<open>The direct logger: the project search compares names, the log-stream search does not.\<close>

lemma getProjectIDByName_exact:
  "fst (makeAPIRequest e ''GET''
          (''https://api.galileo.ai/v2/projects?name='' @ QueryEscape e n) k [] s) = Inr resp \<Longrightarrow>
   StatusCode resp = 200 \<Longrightarrow> Decode_data_entries e (Body resp) = (xs, None) \<Longrightarrow>
   fst (getProjectIDByName e k n s) =
     Inr (case find (\<lambda>p. ent_Name p = n) xs of None \<Rightarrow> [] | Some p \<Rightarrow> ent_ID p)"
  by (simp add: getProjectIDByName_def Let_def case_prod_beta split: sum.splits option.splits)

lemma getLogStreamIDByName_first:
  "fst (makeAPIRequest e ''GET''
          (''https://api.galileo.ai/v2/projects/'' @ p @ ''/log_streams?name='' @ n) k [] s) = Inr resp \<Longrightarrow>
   StatusCode resp = 200 \<Longrightarrow> Decode_data_entries e (Body resp) = (x # xs, None) \<Longrightarrow>
   fst (getLogStreamIDByName e k p n s) = Inr (ent_ID x)"
  by (simp add: getLogStreamIDByName_def Let_def case_prod_beta split: sum.splits)

text \<open>
  Claim C8 at an input where the code departs from it. The service lists the stream
  \<open>production-eu\<close> for the query \<open>production\<close>. \<open>getOrCreateLogStreamID\<close> returns the
  identifier of that stream, whose name is not the requested one, and makes one request,
  the GET: no stream named \<open>production\<close> is created. On the same listing the project
  search of the same program reports "not found".
\<close>

theorem log_stream_lookup_takes_first_entry:
  "fst (getOrCreateLogStreamID env_similar ''key'' ''p-1'' ''production'' sys0) = Inr ''ls-7'' \<and>
   map req_Method (sent (snd (getOrCreateLogStreamID env_similar ''key'' ''p-1'' ''production'' sys0)))
     = [''GET''] \<and>
   fst (getProjectIDByName env_similar ''key'' ''production'' sys0) = Inr []"
  by (simp add: getOrCreateLogStreamID_def getLogStreamIDByName_def getProjectIDByName_def
        makeAPIRequest_def http_NewRequestWithContext_def httpClient_Do_def Header_Set_def
        env_similar_def env_ok_def sys0_def log_Printf_def Let_def)

end
